theory Spec2Isabelle
  imports Complex_Main "HOL-Library.Sublist"
begin

section \<open>Strings of UTF-16 code units\<close>

text \<open>
  The parser of \<^verbatim>\<open>server/src/services/excelParser.ts\<close> works on JavaScript strings,
  which are sequences of 16-bit code units. The patterns of the source contain code units
  beyond one byte (U+00E5, U+00F8, U+03B4, the white space of \<^verbatim>\<open>\s\<close>), so a string is
  a list of code units given as integers; \<open>str\<close> embeds an ASCII literal.
\<close>

type_synonym jsstring = "int list"

definition cu :: "char \<Rightarrow> int" where
  "cu c = of_char c"

definition str :: "string \<Rightarrow> jsstring" where
  "str s = map cu s"

text \<open>White space and line terminators, as \<^verbatim>\<open>\s\<close> and \<^verbatim>\<open>String.prototype.trim\<close> see them.\<close>

definition isSpace :: "int \<Rightarrow> bool" where
  "isSpace c \<longleftrightarrow>
     (9 \<le> c \<and> c \<le> 13) \<or> c = 32 \<or> c = 160 \<or> c = 5760 \<or> (8192 \<le> c \<and> c \<le> 8202) \<or>
     c = 8232 \<or> c = 8233 \<or> c = 8239 \<or> c = 8287 \<or> c = 12288 \<or> c = 65279"

definition isLineTerminator :: "int \<Rightarrow> bool" where
  "isLineTerminator c \<longleftrightarrow> c = 10 \<or> c = 13 \<or> c = 8232 \<or> c = 8233"

definition isDigit :: "int \<Rightarrow> bool" where
  "isDigit c \<longleftrightarrow> 48 \<le> c \<and> c \<le> 57"

definition isWordChar :: "int \<Rightarrow> bool" where
  "isWordChar c \<longleftrightarrow> (48 \<le> c \<and> c \<le> 57) \<or> (65 \<le> c \<and> c \<le> 90) \<or> c = 95 \<or> (97 \<le> c \<and> c \<le> 122)"

definition trimStart :: "jsstring \<Rightarrow> jsstring" where
  "trimStart s = dropWhile isSpace s"

definition trimEnd :: "jsstring \<Rightarrow> jsstring" where
  "trimEnd s = rev (dropWhile isSpace (rev s))"

definition trim :: "jsstring \<Rightarrow> jsstring" where
  "trim s = trimEnd (trimStart s)"

text \<open>
  \<^verbatim>\<open>toLowerCase\<close> on the letters the labels of the source are written in: ASCII, the
  Latin-1 supplement (U+00C0 to U+00DE without the multiplication sign) and the Greek
  capitals. Every other code unit is left as it is; the rest of the Unicode case tables
  is not reproduced.
\<close>

definition lowerUnit :: "int \<Rightarrow> int" where
  "lowerUnit c =
     (if 65 \<le> c \<and> c \<le> 90 then c + 32
      else if 192 \<le> c \<and> c \<le> 222 \<and> c \<noteq> 215 then c + 32
      else if 913 \<le> c \<and> c \<le> 939 \<and> c \<noteq> 930 then c + 32
      else c)"

definition toLowerCase :: "jsstring \<Rightarrow> jsstring" where
  "toLowerCase s = map lowerUnit s"

definition asciiLower :: "int \<Rightarrow> int" where
  "asciiLower c = (if 65 \<le> c \<and> c \<le> 90 then c + 32 else c)"

definition startsWith :: "jsstring \<Rightarrow> jsstring \<Rightarrow> bool" where
  "startsWith s p \<longleftrightarrow> take (length p) s = p"

definition includesStr :: "jsstring \<Rightarrow> jsstring \<Rightarrow> bool" where
  "includesStr s t \<longleftrightarrow> list_ex (\<lambda>i. startsWith (drop i s) t) [0..<Suc (length s)]"

text \<open>\<^verbatim>\<open>s.indexOf(c)\<close> for a single code unit: the first position, or \<open>-1\<close>.\<close>

fun indexOf :: "jsstring \<Rightarrow> int \<Rightarrow> int" where
  "indexOf [] c = - 1"
| "indexOf (x # xs) c =
     (if x = c then 0 else (let i = indexOf xs c in if i < 0 then - 1 else i + 1))"

text \<open>\<^verbatim>\<open>s.replace(c, d)\<close> with a string pattern replaces the first occurrence only.\<close>

fun replaceFirst :: "int \<Rightarrow> int \<Rightarrow> jsstring \<Rightarrow> jsstring" where
  "replaceFirst c d [] = []"
| "replaceFirst c d (x # xs) = (if x = c then d # xs else x # replaceFirst c d xs)"

text \<open>\<^verbatim>\<open>xs.join(sep)\<close>.\<close>

fun join :: "jsstring \<Rightarrow> jsstring list \<Rightarrow> jsstring" where
  "join sep [] = []"
| "join sep [x] = x"
| "join sep (x # y # ys) = x @ sep @ join sep (y # ys)"

section \<open>Regular expressions\<close>

text \<open>
  The patterns of the source use literals, character classes, grouping, alternation, the
  greedy quantifiers \<^verbatim>\<open>? * +\<close>, the anchors \<^verbatim>\<open>^ $\<close> and the word boundary \<^verbatim>\<open>\b\<close>; there are
  no back references and no look-around. For \<^verbatim>\<open>RegExp.prototype.test\<close> only the existence
  of a match counts, so a pattern is given the set of positions at which a match that
  starts at position \<open>i\<close> of the subject may end.
\<close>

datatype re =
    Lit string
  | Chr int
  | Dot
  | Ws
  | Dig
  | OneOf string
  | NoneOf string
  | Bol
  | Eol
  | WordB
  | Opt re
  | Star re
  | Plus re
  | Cat "re list"
  | Alts "re list"

definition unitAt :: "jsstring \<Rightarrow> nat \<Rightarrow> (int \<Rightarrow> bool) \<Rightarrow> nat list" where
  "unitAt s i P = (if i < length s \<and> P (s ! i) then [Suc i] else [])"

definition wordBefore :: "jsstring \<Rightarrow> nat \<Rightarrow> bool" where
  "wordBefore s i \<longleftrightarrow> 0 < i \<and> i \<le> length s \<and> isWordChar (s ! (i - 1))"

definition wordAfter :: "jsstring \<Rightarrow> nat \<Rightarrow> bool" where
  "wordAfter s i \<longleftrightarrow> i < length s \<and> isWordChar (s ! i)"

text \<open>
  All positions reachable from \<open>ps\<close> by at most \<open>n\<close> rounds of \<open>f\<close>. A subject of length
  \<open>n\<close> has \<open>n + 1\<close> positions and a round that adds none ends the growth, so \<open>n + 1\<close>
  rounds reach them all.
\<close>

fun closure :: "(nat \<Rightarrow> nat list) \<Rightarrow> nat \<Rightarrow> nat list \<Rightarrow> nat list" where
  "closure f 0 ps = ps"
| "closure f (Suc n) ps = closure f n (remdups (ps @ concat (map f ps)))"

fun ends :: "re \<Rightarrow> jsstring \<Rightarrow> nat \<Rightarrow> nat list"
  and endsCat :: "re list \<Rightarrow> jsstring \<Rightarrow> nat list \<Rightarrow> nat list"
  and endsAlts :: "re list \<Rightarrow> jsstring \<Rightarrow> nat \<Rightarrow> nat list"
where
  "ends (Lit cs) s i = (if startsWith (drop i s) (str cs) then [i + length cs] else [])"
| "ends (Chr c) s i = unitAt s i (\<lambda>x. x = c)"
| "ends Dot s i = unitAt s i (\<lambda>x. \<not> isLineTerminator x)"
| "ends Ws s i = unitAt s i isSpace"
| "ends Dig s i = unitAt s i isDigit"
| "ends (OneOf cs) s i = unitAt s i (\<lambda>x. x \<in> set (str cs))"
| "ends (NoneOf cs) s i = unitAt s i (\<lambda>x. x \<notin> set (str cs))"
| "ends Bol s i = (if i = 0 then [i] else [])"
| "ends Eol s i = (if i = length s then [i] else [])"
| "ends WordB s i = (if wordBefore s i \<noteq> wordAfter s i then [i] else [])"
| "ends (Opt r) s i = remdups (ends r s i @ [i])"
| "ends (Star r) s i = closure (ends r s) (Suc (length s)) [i]"
| "ends (Plus r) s i = closure (ends r s) (Suc (length s)) (ends r s i)"
| "ends (Cat rs) s i = endsCat rs s [i]"
| "ends (Alts rs) s i = endsAlts rs s i"
| "endsCat [] s ps = ps"
| "endsCat (r # rs) s ps = endsCat rs s (remdups (concat (map (ends r s) ps)))"
| "endsAlts [] s i = []"
| "endsAlts (r # rs) s i = remdups (ends r s i @ endsAlts rs s i)"

text \<open>\<^verbatim>\<open>regex.test(s)\<close>: a match may start anywhere.\<close>

definition test :: "re \<Rightarrow> jsstring \<Rightarrow> bool" where
  "test r s \<longleftrightarrow> list_ex (\<lambda>i. ends r s i \<noteq> []) [0..<Suc (length s)]"

text \<open>
  The same with the \<^verbatim>\<open>i\<close> flag, for a pattern written in lower-case ASCII: without the
  \<^verbatim>\<open>u\<close> flag a code unit outside ASCII never folds onto an ASCII letter, so folding the
  ASCII capitals of the subject is the whole of the case-insensitive comparison.
\<close>

definition testI :: "re \<Rightarrow> jsstring \<Rightarrow> bool" where
  "testI r s = test r (map asciiLower s)"

section \<open>Numbers\<close>

text \<open>
  A JavaScript number is a double. A finite number is represented by the exact value of
  the decimal numeral it is read from; the rounding of IEEE 754 is not modelled. The three
  values that are not finite are kept, since \<^verbatim>\<open>cellNum\<close> tests for \<^verbatim>\<open>NaN\<close>.
\<close>

datatype number = Finite rat | PosInfinity | NegInfinity | NaN

definition isNaN :: "number \<Rightarrow> bool" where
  "isNaN n \<longleftrightarrow> n = NaN"

definition digitsVal :: "jsstring \<Rightarrow> int" where
  "digitsVal ds = foldl (\<lambda>n c. 10 * n + (c - 48)) 0 ds"

text \<open>An optional sign in front of the rest of a numeral.\<close>

fun signPart :: "jsstring \<Rightarrow> bool \<times> jsstring" where
  "signPart [] = (False, [])"
| "signPart (c # cs) =
     (if c = cu CHR ''-'' then (True, cs) else if c = cu CHR ''+'' then (False, cs) else (False, c # cs))"

text \<open>The fraction after the integer digits: its digits and what follows them.\<close>

fun fractionPart :: "jsstring \<Rightarrow> jsstring \<times> jsstring" where
  "fractionPart [] = ([], [])"
| "fractionPart (c # cs) =
     (if c = cu CHR ''.'' then (takeWhile isDigit cs, dropWhile isDigit cs) else ([], c # cs))"

text \<open>The exponent part, \<open>0\<close> where there is none or it has no digit.\<close>

fun exponentPart :: "jsstring \<Rightarrow> int" where
  "exponentPart [] = 0"
| "exponentPart (c # cs) =
     (if c = cu CHR ''e'' \<or> c = cu CHR ''E'' then
        (let (neg, ds) = signPart cs; es = takeWhile isDigit ds
         in if es = [] then 0 else if neg then - digitsVal es else digitsVal es)
      else 0)"

definition scale10 :: "rat \<Rightarrow> int \<Rightarrow> rat" where
  "scale10 m e = (if 0 \<le> e then m * 10 ^ nat e else m / 10 ^ nat (- e))"

text \<open>
  \<^verbatim>\<open>parseFloat\<close>: leading white space is skipped and the longest prefix that is a decimal
  literal is read; anything after it is ignored. No such prefix gives \<^verbatim>\<open>NaN\<close>.
\<close>

definition parseFloat :: "jsstring \<Rightarrow> number" where
  "parseFloat s =
     (let (neg, u) = signPart (trimStart s) in
      if startsWith u (str ''Infinity'') then (if neg then NegInfinity else PosInfinity)
      else
        let ip = takeWhile isDigit u;
            (fp, r) = fractionPart (dropWhile isDigit u)
        in if ip = [] \<and> fp = [] then NaN
           else
             let m = of_int (digitsVal ip) + of_int (digitsVal fp) / 10 ^ length fp;
                 v = scale10 m (exponentPart r)
             in Finite (if neg then - v else v))"

text \<open>\<^verbatim>\<open>parseInt\<close> on a run of decimal digits, the only way the source calls it.\<close>

definition parseInt :: "jsstring \<Rightarrow> number" where
  "parseInt ds = Finite (of_int (digitsVal ds))"

function intDigits :: "int \<Rightarrow> jsstring" where
  "intDigits n = (if n < 10 then [48 + n] else intDigits (n div 10) @ [48 + n mod 10])"
  by pat_completeness auto
termination
  by (relation "measure nat") auto

fun fracDigits :: "nat \<Rightarrow> rat \<Rightarrow> jsstring" where
  "fracDigits 0 f = []"
| "fracDigits (Suc n) f =
     (if f = 0 then []
      else let d = \<lfloor>f * 10\<rfloor> in (48 + d) # fracDigits n (f * 10 - of_int d))"

text \<open>
  \<^verbatim>\<open>String(n)\<close> and \<^verbatim>\<open>`${n}`\<close>. Exact for the integers, which is what the row numbers, the
  counts and the years of a header are; a fraction is printed with at most 17 digits of
  its exact expansion, and the exponent notation of very large and very small numbers is
  not modelled.
\<close>

fun numToString :: "number \<Rightarrow> jsstring" where
  "numToString NaN = str ''NaN''"
| "numToString PosInfinity = str ''Infinity''"
| "numToString NegInfinity = str ''-Infinity''"
| "numToString (Finite q) =
     (let a = \<bar>q\<bar>; ip = \<lfloor>a\<rfloor>; fr = a - of_int ip
      in (if q < 0 then str ''-'' else []) @ intDigits ip @
         (if fr = 0 then [] else str ''.'' @ fracDigits 17 fr))"

definition natToString :: "nat \<Rightarrow> jsstring" where
  "natToString n = numToString (Finite (of_nat n))"

section \<open>Cell value extraction\<close>

text \<open>
  A \<^verbatim>\<open>Date\<close> is represented by what the parser reads from it: the year of
  \<^verbatim>\<open>getFullYear()\<close> (in the time zone of the process) and the text of \<^verbatim>\<open>toISOString()\<close>.
  Dates are taken to be valid: an invalid date, on which \<^verbatim>\<open>toISOString()\<close> throws, has no
  representation here.
\<close>

datatype jsdate = JsDate (fullYear: int) (isoString: jsstring)

text \<open>
  The values a cell may hold. \<open>VObject\<close> stands for the objects of ExcelJS that the parser
  has no case for (hyperlink and error values): all it does with them is \<^verbatim>\<open>String(v)\<close>.
\<close>

datatype jsvalue = VNull | VNum number | VStr jsstring | VDate jsdate | VBool bool | VObject

text \<open>
  \<^verbatim>\<open>cell.value\<close>: a plain value, a formula or shared formula with its last result, or rich
  text as the list of the texts of its runs (a run without text counts as the empty text).
\<close>

datatype cellvalue =
    Plain jsvalue
  | FormulaCell jsvalue
  | SharedFormulaCell jsvalue
  | RichTextCell "jsstring list"

fun cellValue :: "cellvalue \<Rightarrow> jsvalue" where
  "cellValue (Plain v) = v"
| "cellValue (FormulaCell res) = res"
| "cellValue (SharedFormulaCell res) = res"
| "cellValue (RichTextCell ts) = (let t = trim (concat ts) in if t = [] then VNull else VStr t)"

fun toStr :: "jsvalue \<Rightarrow> jsstring" where
  "toStr VNull = str ''null''"
| "toStr (VNum n) = numToString n"
| "toStr (VStr s) = s"
| "toStr (VDate d) = isoString d"
| "toStr (VBool b) = (if b then str ''true'' else str ''false'')"
| "toStr VObject = str ''[object Object]''"

definition stripSpaces :: "jsstring \<Rightarrow> jsstring" where
  "stripSpaces s = filter (\<lambda>c. \<not> isSpace c) s"

text \<open>The text that \<^verbatim>\<open>cellNum\<close> hands to \<^verbatim>\<open>parseFloat\<close>, for a trimmed string \<open>s\<close>.\<close>

definition cleaned :: "jsstring \<Rightarrow> jsstring" where
  "cleaned s =
     (let hasComma = cu CHR '','' \<in> set s; hasDot = cu CHR ''.'' \<in> set s in
      if hasComma \<and> \<not> hasDot then replaceFirst (cu CHR '','') (cu CHR ''.'') (stripSpaces s)
      else if hasComma \<and> hasDot then
        (if indexOf s (cu CHR ''.'') < indexOf s (cu CHR '','')
         then replaceFirst (cu CHR '','') (cu CHR ''.'')
                (filter (\<lambda>c. c \<noteq> cu CHR ''.'') (stripSpaces s))
         else filter (\<lambda>c. c \<noteq> cu CHR '','') (stripSpaces s))
      else stripSpaces s)"

definition numOfString :: "jsstring \<Rightarrow> number option" where
  "numOfString v =
     (let s = trim v in
      if s = [] \<or> s = str ''-'' \<or> s = str ''--'' \<or> s = str ''n/a'' \<or> s = str ''N/A'' then None
      else let n = parseFloat (cleaned s) in if isNaN n then None else Some n)"

definition cellNum :: "cellvalue \<Rightarrow> number option" where
  "cellNum cell =
     (case cellValue cell of
        VNull \<Rightarrow> None
      | VDate d \<Rightarrow> None
      | VNum n \<Rightarrow> (if isNaN n then None else Some n)
      | v \<Rightarrow> numOfString (toStr v))"

definition cellStr :: "cellvalue \<Rightarrow> jsstring" where
  "cellStr cell =
     (case cellValue cell of
        VNull \<Rightarrow> []
      | VDate d \<Rightarrow> isoString d
      | v \<Rightarrow> trim (toStr v))"

section \<open>Row label normalization and mapping\<close>

text \<open>\<^verbatim>\<open>replace(/\s+/g, " ")\<close>: every maximal run of white space becomes one space.\<close>

fun collapseSpaces :: "jsstring \<Rightarrow> jsstring" where
  "collapseSpaces [] = []"
| "collapseSpaces [c] = [if isSpace c then 32 else c]"
| "collapseSpaces (c # d # cs) =
     (if isSpace c then (if isSpace d then collapseSpaces (d # cs) else 32 # collapseSpaces (d # cs))
      else c # collapseSpaces (d # cs))"

text \<open>\<^verbatim>\<open>replace(/[,.:;()]+$/g, "")\<close>: the run of punctuation at the end is removed.\<close>

definition stripTrailingPunct :: "jsstring \<Rightarrow> jsstring" where
  "stripTrailingPunct s = rev (dropWhile (\<lambda>c. c \<in> set (str '',.:;()'')) (rev s))"

text \<open>\<^verbatim>\<open>replace(/[""'']/g, "")\<close>: the class holds the two ASCII quotes.\<close>

definition removeQuotes :: "jsstring \<Rightarrow> jsstring" where
  "removeQuotes s = filter (\<lambda>c. c \<noteq> 34 \<and> c \<noteq> 39) s"

definition normalizeLabel :: "jsstring \<Rightarrow> jsstring" where
  "normalizeLabel raw = trim (removeQuotes (stripTrailingPunct (collapseSpaces (toLowerCase raw))))"

text \<open>The numeric keys of \<^verbatim>\<open>PeriodYear\<close>, in the order of the interface.\<close>

datatype FieldKey =
    revenue_total | revenue_managed_services | revenue_professional_services | revenue_other
  | revenue_organic | revenue_ma | revenue_growth | organic_growth | acquired_revenue
  | ebitda_total | ebitda_margin | ebitda_managed_services | ebitda_professional_services
  | ebitda_central_costs | ebitda_organic | ebitda_ma
  | margin_managed_services | margin_professional_services | margin_central_costs
  | capex | capex_pct_revenue | change_nwc | other_cash_flow_items | operating_fcf
  | minority_interest | operating_fcf_excl_minorities | cash_conversion
  | share_count | nibd | option_debt | adjustments | enterprise_value | equity_value
  | preferred_equity | per_share_pre | mip_amount | tso_amount | warrants_amount
  | eqv_post_dilution | per_share_post

fun fieldName :: "FieldKey \<Rightarrow> string" where
  "fieldName revenue_total = ''revenue_total''"
| "fieldName revenue_managed_services = ''revenue_managed_services''"
| "fieldName revenue_professional_services = ''revenue_professional_services''"
| "fieldName revenue_other = ''revenue_other''"
| "fieldName revenue_organic = ''revenue_organic''"
| "fieldName revenue_ma = ''revenue_ma''"
| "fieldName revenue_growth = ''revenue_growth''"
| "fieldName organic_growth = ''organic_growth''"
| "fieldName acquired_revenue = ''acquired_revenue''"
| "fieldName ebitda_total = ''ebitda_total''"
| "fieldName ebitda_margin = ''ebitda_margin''"
| "fieldName ebitda_managed_services = ''ebitda_managed_services''"
| "fieldName ebitda_professional_services = ''ebitda_professional_services''"
| "fieldName ebitda_central_costs = ''ebitda_central_costs''"
| "fieldName ebitda_organic = ''ebitda_organic''"
| "fieldName ebitda_ma = ''ebitda_ma''"
| "fieldName margin_managed_services = ''margin_managed_services''"
| "fieldName margin_professional_services = ''margin_professional_services''"
| "fieldName margin_central_costs = ''margin_central_costs''"
| "fieldName capex = ''capex''"
| "fieldName capex_pct_revenue = ''capex_pct_revenue''"
| "fieldName change_nwc = ''change_nwc''"
| "fieldName other_cash_flow_items = ''other_cash_flow_items''"
| "fieldName operating_fcf = ''operating_fcf''"
| "fieldName minority_interest = ''minority_interest''"
| "fieldName operating_fcf_excl_minorities = ''operating_fcf_excl_minorities''"
| "fieldName cash_conversion = ''cash_conversion''"
| "fieldName share_count = ''share_count''"
| "fieldName nibd = ''nibd''"
| "fieldName option_debt = ''option_debt''"
| "fieldName adjustments = ''adjustments''"
| "fieldName enterprise_value = ''enterprise_value''"
| "fieldName equity_value = ''equity_value''"
| "fieldName preferred_equity = ''preferred_equity''"
| "fieldName per_share_pre = ''per_share_pre''"
| "fieldName mip_amount = ''mip_amount''"
| "fieldName tso_amount = ''tso_amount''"
| "fieldName warrants_amount = ''warrants_amount''"
| "fieldName eqv_post_dilution = ''eqv_post_dilution''"
| "fieldName per_share_post = ''per_share_post''"

text \<open>
  The table \<^verbatim>\<open>LABEL_MAPPINGS\<close>, entry by entry and in the order of the source; the first
  pattern that matches wins. \<open>Chr 229\<close>, \<open>Chr 230\<close>, \<open>Chr 248\<close> and \<open>Chr 948\<close> are the letters
  U+00E5, U+00E6, U+00F8 and U+03B4 of the Norwegian and Greek words.
\<close>

definition LABEL_MAPPINGS :: "(re \<times> FieldKey) list" where
  "LABEL_MAPPINGS = [
    (Cat [Bol, Opt (Cat [Lit ''total'', Plus Ws]), Lit ''revenue'', Eol], revenue_total),
    (Cat [Bol, Opt (Cat [Lit ''total'', Plus Ws]), Lit ''omsetning'', Eol], revenue_total),
    (Cat [Bol, Opt (Cat [Lit ''total'', Opt (Lit ''e''), Plus Ws]), Lit ''driftsinntekter'', Eol],
      revenue_total),
    (Cat [Bol, Lit ''inntekte'', Opt (Lit ''r''), Star Ws, Opt (Lit ''total''), Eol], revenue_total),
    (Cat [Bol, Lit ''turnover'', Eol], revenue_total),
    (Cat [Bol, Lit ''net'', Plus Ws, Alts [Lit ''revenue'', Lit ''sales'']], revenue_total),
    (Cat [Bol, Lit ''netto'', Plus Ws, Lit ''omsetning''], revenue_total),
    (Cat [Bol, Lit ''salgsinntekt''], revenue_total),

    (Cat [Lit ''managed'', Plus Ws, Lit ''service'', Opt (Lit ''s''), Star Ws,
          Opt (Alts [Lit ''revenue'', Lit ''omsetning''])], revenue_managed_services),
    (Cat [Bol, Lit ''a&p'', Eol], revenue_managed_services),
    (Cat [Bol, Lit ''accounting'', Star Ws, Alts [Lit ''&'', Lit ''and''], Star Ws, Lit ''payroll''],
      revenue_managed_services),
    (Cat [Lit ''professional'', Plus Ws, Lit ''service'', Opt (Lit ''s''), Star Ws,
          Opt (Alts [Lit ''revenue'', Lit ''omsetning''])], revenue_professional_services),
    (Cat [Bol, Lit ''advisory'', Eol], revenue_professional_services),
    (Cat [Bol, Lit ''r'', Chr 229, Lit ''dgivning'', Eol], revenue_professional_services),
    (Cat [Bol, Lit ''licen'', OneOf ''sc'', Lit ''e'', Opt (OneOf ''sr''), Eol], revenue_other),
    (Cat [Alts [Lit ''other'', Lit ''annen'', Cat [Chr 248, Lit ''vrig'']], Star Ws,
          Alts [Lit ''revenue'', Lit ''omsetning'', Lit ''inntekt'']], revenue_other),
    (Cat [Lit ''organic'', Star Ws, Alts [Lit ''revenue'', Lit ''omsetning'']], revenue_organic),
    (Cat [Lit ''organisk'', Star Ws, Alts [Lit ''omsetning'', Lit ''inntekt'']], revenue_organic),
    (Cat [Alts [Lit ''m&a'', Lit ''ma'', Lit ''acquired''], Star Ws,
          Alts [Lit ''revenue'', Lit ''omsetning'']], revenue_ma),
    (Cat [Lit ''oppkj'', Chr 248, Lit ''pt'', Star Ws, Alts [Lit ''omsetning'', Lit ''inntekt'']],
      revenue_ma),

    (Cat [Lit ''acquired'', Plus Ws, Lit ''revenue''], acquired_revenue),
    (Cat [Lit ''oppkj'', Chr 248, Lit ''pt'', Plus Ws, Lit ''omsetning''], acquired_revenue),

    (Cat [Bol, Opt (Cat [Lit ''total'', Plus Ws]), Alts [Lit ''revenue'', Lit ''omsetning''], Star Ws,
          Alts [Lit ''growth'', Lit ''vekst'']], revenue_growth),
    (Cat [Bol, Opt (Cat [Lit ''total'', Plus Ws]), Lit ''vekst'', Star Ws, Opt (Lit ''%''), Eol],
      revenue_growth),
    (Cat [Bol, Lit ''%'', Star Ws, Lit ''growth'', Eol], revenue_growth),

    (Cat [Lit ''organic'', Plus Ws, Lit ''growth''], organic_growth),
    (Cat [Lit ''organisk'', Plus Ws, Lit ''vekst''], organic_growth),

    (Cat [Bol, Opt (Cat [Lit ''total'', Plus Ws]), Lit ''ebitda'', Eol], ebitda_total),
    (Cat [Bol, Opt (Cat [Lit ''total'', Plus Ws]), Lit ''ebitda'', Star Ws, Opt (Lit ''(''),
          Alts [Lit ''pre'', Lit ''ex'', Lit ''excl'']], ebitda_total),
    (Cat [Bol, Lit ''driftsresultat'', Star Ws,
          Opt (Cat [Lit ''f'', Chr 248, Lit ''r'', Star Ws, Lit ''avskr''])], ebitda_total),

    (Cat [Bol, Lit ''ebitda'', Star Ws, Alts [Lit ''%'', Lit ''margin'', Lit ''prosent'']],
      ebitda_margin),
    (Cat [Bol, Lit ''ebitda-margin''], ebitda_margin),
    (Cat [Bol, Lit ''margin'', Star Ws, Opt (Lit ''%''), Eol], ebitda_margin),

    (Cat [Lit ''ebitda'', Star Ws, Lit ''managed''], ebitda_managed_services),
    (Cat [Lit ''ebitda'', Star Ws, Lit ''professional''], ebitda_professional_services),
    (Cat [Bol, Alts [Lit ''central'', Cat [Lit ''sentral'', Opt (Lit ''e'')]], Star Ws,
          Alts [Cat [Lit ''cost'', Opt (Lit ''s'')], Cat [Lit ''kostnade'', Opt (Lit ''r'')]]],
      ebitda_central_costs),
    (Cat [Lit ''ebitda'', Star Ws, Lit ''organic''], ebitda_organic),
    (Cat [Lit ''ebitda'', Star Ws, Lit ''organisk''], ebitda_organic),
    (Cat [Bol, Lit ''organic'', Plus Ws, Lit ''ebitda''], ebitda_organic),
    (Cat [Bol, Lit ''organisk'', Plus Ws, Lit ''ebitda''], ebitda_organic),
    (Cat [Lit ''ebitda'', Star Ws, Alts [Lit ''m&a'', Lit ''ma'', Lit ''acquired'']], ebitda_ma),

    (Cat [Bol, Lit ''capex'', Eol], capex),
    (Cat [Bol, Opt (Cat [Lit ''total'', Plus Ws]), Lit ''capex''], capex),
    (Cat [Bol, Lit ''investering'', Opt (Lit ''er''), Eol], capex),
    (Cat [Lit ''capex'', Star Dot, Lit ''%'', Star Ws, Opt (Cat [Lit ''of'', Plus Ws]), Lit ''rev''],
      capex_pct_revenue),
    (Cat [Lit ''capex'', Star Ws, Lit ''%''], capex_pct_revenue),

    (Cat [Bol, Opt (Cat [Lit ''change'', Plus Ws, Lit ''in'', Plus Ws]), Lit ''n'',
          Opt (Cat [Lit ''et'', Plus Ws]), Lit ''w'', Opt (Cat [Lit ''orking'', Plus Ws]), Lit ''c'',
          Opt (Lit ''apital'')], change_nwc),
    (Cat [Bol, Lit ''endring'', Star Ws, Opt (Cat [Lit ''i'', Plus Ws]), Lit ''arbeidskapital''],
      change_nwc),
    (Cat [Bol, Opt (Chr 948), Star Ws, Lit ''nwc''], change_nwc),
    (Cat [Bol, Lit ''working'', Star Ws, Lit ''capital'', Star Ws, Opt (Lit ''change'')], change_nwc),

    (Cat [Bol, Lit ''other'', Star Ws, Alts [Cat [Lit ''cash'', Star Ws, Lit ''flow''], Lit ''cf''],
          Star Ws, Opt (Lit ''items'')], other_cash_flow_items),
    (Cat [Bol, Lit ''andre'', Star Ws, Alts [Cat [Lit ''kontantstr'', Chr 248, Lit ''m''], Lit ''cf''],
          Star Ws, Opt (Lit ''poster'')], other_cash_flow_items),
    (Cat [Bol, Chr 248, Lit ''vrige'', Star Ws,
          Alts [Lit ''poster'', Cat [Lit ''kontantstr'', Chr 248, Lit ''m'']]], other_cash_flow_items),

    (Cat [Bol, Lit ''operating'', Star Ws,
          Alts [Lit ''fcf'', Cat [Lit ''free'', Star Ws, Lit ''cash'', Star Ws, Lit ''flow'']], Eol],
      operating_fcf),
    (Cat [Bol, Lit ''operasjonell'', Star Ws,
          Alts [Lit ''fcf'', Cat [Lit ''fri'', Star Ws, Lit ''kontantstr'', Chr 248, Lit ''m'']]],
      operating_fcf),
    (Cat [Bol, Lit ''op'', Opt (Lit ''.''), Star Ws, Lit ''fcf''], operating_fcf),
    (Cat [Bol, Opt (Cat [Lit ''total'', Plus Ws]), Lit ''fcf'', Eol], operating_fcf),
    (Cat [Bol, Lit ''fri'', Star Ws, Lit ''kontantstr'', Chr 248, Lit ''m''], operating_fcf),

    (Cat [Bol, Lit ''minority'', Star Ws, Opt (Lit ''interest''), Eol], minority_interest),
    (Cat [Bol, Lit ''minoritet'', Opt (Lit ''sinteresse'')], minority_interest),

    (Cat [Bol, Opt (Cat [Lit ''operating'', Plus Ws]), Lit ''fcf'', Star Ws,
          Alts [Lit ''excl'', Lit ''ex'', Lit ''etter''], Star Ws, Lit ''minor''],
      operating_fcf_excl_minorities),

    (Cat [Bol, Lit ''cash'', Star Ws, Lit ''conversion''], cash_conversion),
    (Cat [Bol, Lit ''kontant'', Alts [Lit ''konvertering'', Lit ''omregning'']], cash_conversion),

    (Cat [Bol, Lit ''number'', Plus Ws, Lit ''of'', Plus Ws, Lit ''shares''], share_count),
    (Cat [Bol, Lit ''antall'', Plus Ws, Lit ''aksjer''], share_count),
    (Cat [Bol, Lit ''aksjer'', Star Ws, Opt (Cat [Lit ''utest'', Chr 229, Lit ''ende'']), Eol],
      share_count),

    (Cat [Bol, Lit ''nibd''], nibd),
    (Cat [Bol, Lit ''net'', Opt (Lit ''to''), Star Ws,
          Opt (Cat [Lit ''interest'', Plus Ws, Lit ''bearing'', Plus Ws]), Lit ''debt''], nibd),
    (Cat [Bol, Lit ''netto'', Star Ws,
          Opt (Cat [Lit ''rente'', Opt (Cat [Lit ''b'', Chr 230, Lit ''rende'']), Star Ws]),
          Lit ''gjeld''], nibd),

    (Cat [Bol, Lit ''option'', Star Ws, Lit ''debt''], option_debt),
    (Cat [Bol, Lit ''opsjonsgjeld''], option_debt),

    (Cat [Bol, Lit ''adjustment'', Opt (Lit ''s''), Eol], adjustments),
    (Cat [Bol, Lit ''justeringe'', Opt (Lit ''r''), Eol], adjustments),

    (Cat [Bol, Lit ''ev'', Eol], enterprise_value),
    (Cat [Bol, Lit ''enterprise'', Plus Ws, Lit ''value''], enterprise_value),
    (Cat [Bol, Lit ''selskapsverdi'', Eol], enterprise_value),
    (Cat [Bol, Lit ''virksomhetsverdi'', Eol], enterprise_value),

    (Cat [Bol, Lit ''eqv'', Eol], equity_value),
    (Cat [Bol, Lit ''equity'', Plus Ws, Lit ''value''], equity_value),
    (Cat [Bol, Lit ''egenkapitalverdi'', Eol], equity_value),

    (Cat [Bol, Lit ''pref'', Opt (Lit ''erred''),
          Opt (Cat [Plus Ws, Lit ''eq'', Opt (Lit ''uity'')]), Eol], preferred_equity),
    (Cat [Bol, Lit ''preferanse'', Opt (Lit ''aksjer''), Eol], preferred_equity),

    (Cat [Lit ''per'', Plus Ws, Lit ''share'', Star Dot, Lit ''before''], per_share_pre),
    (Cat [Lit ''per'', Plus Ws, Lit ''share'', Star Dot, Lit ''pre''], per_share_pre),
    (Cat [Lit ''per'', Plus Ws, Lit ''aksje'', Star Dot, Lit ''f'', Chr 248, Lit ''r''], per_share_pre),
    (Cat [Bol, Lit ''verdi'', Star Ws, Lit ''per'', Star Ws, Lit ''aksje'', Star Ws, Opt (Lit ''(''),
          Alts [Lit ''pre'', Cat [Lit ''f'', Chr 248, Lit ''r'']]], per_share_pre),

    (Cat [Bol, Lit ''mip'', Eol], mip_amount),
    (Cat [Bol, Lit ''mip'', Plus Ws, Lit ''share''], mip_amount),

    (Cat [Bol, Lit ''tso'', Eol], tso_amount),
    (Cat [Bol, Lit ''tso'', Plus Ws, Lit ''warrant''], tso_amount),

    (Cat [Bol, Lit ''ex'', Opt (Lit ''isting''), Star Ws, Lit ''warr'', Alts [Lit ''a'', Lit ''e''],
          Lit ''nt'', Opt (Lit ''s'')], warrants_amount),
    (Cat [Bol, Lit ''eksisterende'', Star Ws, Lit ''warrant'', Opt (Lit ''s'')], warrants_amount),

    (Cat [Lit ''eqv'', Star Dot, Lit ''post''], eqv_post_dilution),
    (Cat [Lit ''post'', Star Ws, Alts [Lit ''mip'', Lit ''dilution'']], eqv_post_dilution),
    (Cat [Lit ''egenkapital'', Star Dot, Lit ''etter'', Star Ws, Opt (Lit ''utvanning'')],
      eqv_post_dilution),

    (Cat [Lit ''per'', Plus Ws, Lit ''share'', Star Dot, Lit ''post''], per_share_post),
    (Cat [Lit ''per'', Plus Ws, Lit ''aksje'', Star Dot, Lit ''etter''], per_share_post),
    (Cat [Bol, Lit ''verdi'', Star Ws, Lit ''per'', Star Ws, Lit ''aksje'', Star Ws, Opt (Lit ''(''),
          Alts [Lit ''post'', Lit ''etter'']], per_share_post)
  ]"

datatype parseSection = Revenue | Ebitda | Cashflow | Equity

record ParseContext =
  lastSection :: "parseSection option"
  lastField :: "FieldKey option"

text \<open>The section a matched field moves the context to; \<open>None\<close> leaves it where it is.\<close>

definition sectionOf :: "FieldKey \<Rightarrow> parseSection option" where
  "sectionOf field =
     (if startsWith (str (fieldName field)) (str ''revenue'') then Some Revenue
      else if startsWith (str (fieldName field)) (str ''ebitda'') then Some Ebitda
      else if field = capex \<or> field = change_nwc \<or> field = operating_fcf \<or>
              field = cash_conversion \<or> field = other_cash_flow_items then Some Cashflow
      else if field = share_count \<or> field = nibd \<or> field = enterprise_value \<or>
              field = equity_value then Some Equity
      else None)"

definition updateContext :: "FieldKey \<Rightarrow> ParseContext \<Rightarrow> ParseContext" where
  "updateContext field ctx =
     (case sectionOf field of
        Some sec \<Rightarrow> ctx\<lparr>lastField := Some field, lastSection := Some sec\<rparr>
      | None \<Rightarrow> ctx\<lparr>lastField := Some field\<rparr>)"

text \<open>The first entry of a table whose pattern matches.\<close>

fun firstMatch :: "(re \<times> FieldKey) list \<Rightarrow> jsstring \<Rightarrow> FieldKey option" where
  "firstMatch [] l = None"
| "firstMatch ((regex, field) # rest) l = (if test regex l then Some field else firstMatch rest l)"

text \<open>The labels that are resolved by position, once no entry of the table has matched.\<close>

definition contextField :: "jsstring \<Rightarrow> ParseContext \<Rightarrow> FieldKey option" where
  "contextField l ctx =
     (if test (Cat [Bol, Lit ''%'', Star Ws, Lit ''vekst'', Eol]) l \<or>
         test (Cat [Bol, Lit ''%'', Star Ws, Lit ''growth'', Eol]) l then
        (if lastSection ctx = Some Ebitda then None else Some revenue_growth)
      else if test (Cat [Bol, Lit ''%'', Star Ws, Lit ''margin'', Eol]) l then
        (if lastField ctx = Some ebitda_managed_services \<or>
            lastField ctx = Some revenue_managed_services then Some margin_managed_services
         else if lastField ctx = Some ebitda_professional_services \<or>
                 lastField ctx = Some revenue_professional_services
           then Some margin_professional_services
         else if lastField ctx = Some ebitda_central_costs then Some margin_central_costs
         else if lastSection ctx = Some Ebitda \<or> lastField ctx = Some ebitda_total \<or>
                 lastField ctx = Some ebitda_organic then Some ebitda_margin
         else if lastSection ctx = Some Revenue then Some ebitda_margin
         else Some ebitda_margin)
      else None)"

text \<open>
  \<^verbatim>\<open>mapLabelToField(label, ctx?)\<close>. The source updates the context object in place; here the
  context after the call is returned with the field. \<open>None\<close> is a call without a context.
\<close>

definition mapLabelToField :: "jsstring \<Rightarrow> ParseContext option \<Rightarrow> FieldKey option \<times> ParseContext option" where
  "mapLabelToField label ctx =
     (let l = normalizeLabel label in
      if l = [] then (None, ctx)
      else
        (case firstMatch LABEL_MAPPINGS l of
           Some field \<Rightarrow> (Some field, map_option (updateContext field) ctx)
         | None \<Rightarrow>
             (case ctx of
                Some c \<Rightarrow> (contextField l c, ctx)
              | None \<Rightarrow> (None, ctx))))"

section \<open>Worksheets\<close>

text \<open>
  What the parser reads from an ExcelJS worksheet: its name, \<^verbatim>\<open>rowCount\<close>, \<^verbatim>\<open>columnCount\<close>
  and \<^verbatim>\<open>getRow(r).getCell(c).value\<close>, with rows and columns counted from 1. A cell that
  was never written holds \<^verbatim>\<open>null\<close>. The two counts are taken as fixed during a parse (the
  parser reads no row beyond \<^verbatim>\<open>rowCount\<close>, and the cells it reads beyond \<^verbatim>\<open>columnCount\<close>
  are empty). A decoded workbook is the list \<^verbatim>\<open>workbook.worksheets\<close>.
\<close>

record Worksheet =
  ws_name :: jsstring
  rowCount :: nat
  columnCount :: nat
  cellAt :: "nat \<Rightarrow> nat \<Rightarrow> cellvalue"

type_synonym Workbook = "Worksheet list"

text \<open>A sheet given by its rows, for writing concrete sheets down.\<close>

definition gridCell :: "cellvalue list list \<Rightarrow> nat \<Rightarrow> nat \<Rightarrow> cellvalue" where
  "gridCell g r c =
     (if 1 \<le> r \<and> r \<le> length g \<and> 1 \<le> c \<and> c \<le> length (g ! (r - 1))
      then g ! (r - 1) ! (c - 1) else Plain VNull)"

definition gridSheet :: "jsstring \<Rightarrow> cellvalue list list \<Rightarrow> Worksheet" where
  "gridSheet nm g =
     \<lparr>ws_name = nm, rowCount = length g, columnCount = foldr max (map length g) 0,
      cellAt = gridCell g\<rparr>"

definition textCell :: "string \<Rightarrow> cellvalue" where
  "textCell s = Plain (VStr (str s))"

definition numCell :: "rat \<Rightarrow> cellvalue" where
  "numCell q = Plain (VNum (Finite q))"

definition emptyCell :: cellvalue where
  "emptyCell = Plain VNull"

text \<open>The rows or columns \<open>a, a + 1, ..., b\<close> of a \<^verbatim>\<open>for\<close> loop with an inclusive bound.\<close>

definition fromTo :: "nat \<Rightarrow> nat \<Rightarrow> nat list" where
  "fromTo a b = [a..<Suc b]"

section \<open>Year detection\<close>

record YearColumn =
  yc_col :: nat
  yc_year :: rat

record YearHeader =
  headerRow :: nat
  yearCols :: "YearColumn list"

text \<open>
  \<^verbatim>\<open>v.match(/(?:FY)?(\d{4})/)\<close>: the captured group of the leftmost match. A match that
  starts with \<^verbatim>\<open>FY\<close> has no four digits in a row before its own, so the group is always
  the first four decimal digits in a row of the string.
\<close>

fun firstFourDigits :: "jsstring \<Rightarrow> jsstring option" where
  "firstFourDigits [] = None"
| "firstFourDigits (c # cs) =
     (if 4 \<le> length (c # cs) \<and> list_all isDigit (take 4 (c # cs)) then Some (take 4 (c # cs))
      else firstFourDigits cs)"

definition inYearRange :: "number \<Rightarrow> rat option" where
  "inYearRange n = (case n of Finite q \<Rightarrow> (if 2020 \<le> q \<and> q \<le> 2040 then Some q else None) | _ \<Rightarrow> None)"

text \<open>The year a header cell stands for, if any.\<close>

fun yearOfValue :: "jsvalue \<Rightarrow> rat option" where
  "yearOfValue (VNum n) = inYearRange n"
| "yearOfValue (VStr v) =
     (case firstFourDigits v of Some ds \<Rightarrow> inYearRange (parseInt ds) | None \<Rightarrow> None)"
| "yearOfValue (VDate d) = inYearRange (Finite (of_int (fullYear d)))"
| "yearOfValue v = None"

definition candidates :: "Worksheet \<Rightarrow> nat \<Rightarrow> YearColumn list" where
  "candidates ws r =
     List.map_filter
       (\<lambda>c. map_option (\<lambda>y. \<lparr>yc_col = c, yc_year = y\<rparr>) (yearOfValue (cellValue (cellAt ws r c))))
       (fromTo 1 (min 30 (columnCount ws)))"

text \<open>The filter with the set \<^verbatim>\<open>seen\<close>: the first column of every year is kept.\<close>

fun uniqueYears :: "rat list \<Rightarrow> YearColumn list \<Rightarrow> YearColumn list" where
  "uniqueYears seen [] = []"
| "uniqueYears seen (c # cs) =
     (if yc_year c \<in> set seen then uniqueYears seen cs else c # uniqueYears (yc_year c # seen) cs)"

fun findYearHeaderRows :: "Worksheet \<Rightarrow> nat \<Rightarrow> nat list \<Rightarrow> YearHeader option" where
  "findYearHeaderRows ws minCols [] = None"
| "findYearHeaderRows ws minCols (r # rs) =
     (let cands = candidates ws r in
      if minCols \<le> length cands then
        (let unique = uniqueYears [] (sort_key yc_col cands) in
         if minCols \<le> length unique then Some \<lparr>headerRow = r, yearCols = unique\<rparr>
         else findYearHeaderRows ws minCols rs)
      else findYearHeaderRows ws minCols rs)"

definition findYearHeader :: "Worksheet \<Rightarrow> nat \<Rightarrow> nat \<Rightarrow> nat \<Rightarrow> YearHeader option" where
  "findYearHeader ws startRow endRow minCols =
     findYearHeaderRows ws minCols (fromTo startRow (min endRow (rowCount ws)))"

section \<open>Label column detection\<close>

definition knownLabels :: re where
  "knownLabels = Alts [Lit ''revenue'', Lit ''omsetning'', Lit ''ebitda'', Lit ''driftsinntekt'',
     Lit ''turnover'', Lit ''inntekt'', Lit ''resultat'', Lit ''nibd'', Lit ''fcf'', Lit ''capex'',
     Lit ''gjeld'', Lit ''aksjer'']"

text \<open>
  \<^verbatim>\<open>colScores\<close> is a \<^verbatim>\<open>Map\<close>, which is iterated in the order in which its keys were first
  set: an association list that keeps that order.
\<close>

fun bump :: "nat \<Rightarrow> (nat \<times> nat) list \<Rightarrow> (nat \<times> nat) list" where
  "bump c [] = [(c, 1)]"
| "bump c ((k, n) # rest) = (if k = c then (k, n + 1) # rest else (k, n) # bump c rest)"

definition scoreCell :: "Worksheet \<Rightarrow> nat \<Rightarrow> (nat \<times> nat) list \<Rightarrow> nat \<Rightarrow> (nat \<times> nat) list" where
  "scoreCell ws r colScores c =
     (let s = cellStr (cellAt ws r c) in
      if s \<noteq> [] \<and> testI knownLabels s then bump c colScores else colScores)"

definition scoreRow :: "Worksheet \<Rightarrow> nat \<Rightarrow> (nat \<times> nat) list \<Rightarrow> nat \<Rightarrow> (nat \<times> nat) list" where
  "scoreRow ws maxCol colScores r = foldl (scoreCell ws r) colScores (fromTo 1 maxCol)"

definition bestColumn :: "(nat \<times> nat) list \<Rightarrow> nat" where
  "bestColumn colScores =
     fst (foldl (\<lambda>(bestCol, bestScore) (c, score).
                   if bestScore < score then (c, score) else (bestCol, bestScore))
            (2, 0) colScores)"

definition findLabelColumn :: "Worksheet \<Rightarrow> nat \<Rightarrow> nat \<Rightarrow> nat" where
  "findLabelColumn ws startRow endRow =
     (let maxCol = min 10 (columnCount ws);
          maxRow = min endRow (rowCount ws);
          colScores = foldl (scoreRow ws maxCol) [] (fromTo startRow maxRow)
      in if colScores = [] then 2 else bestColumn colScores)"

section \<open>Model block detection\<close>

record RawBlock =
  rb_name :: jsstring
  rb_sheetName :: jsstring
  rb_startRow :: nat
  rb_endRow :: nat

text \<open>\<^verbatim>\<open>/^name:\s*/i\<close> and what \<^verbatim>\<open>label.replace(/^name:\s*/i, "").trim()\<close> leaves of a match.\<close>

definition isNameMarker :: "jsstring \<Rightarrow> bool" where
  "isNameMarker label = testI (Cat [Bol, Lit ''name:'', Star Ws]) label"

definition markerName :: "jsstring \<Rightarrow> jsstring" where
  "markerName label = trim (dropWhile isSpace (drop 5 label))"

text \<open>The inner loop over the columns: it stops at the first cell that matches.\<close>

definition nameBlockOfRow :: "Worksheet \<Rightarrow> nat \<Rightarrow> RawBlock list" where
  "nameBlockOfRow ws r =
     (case find (\<lambda>c. isNameMarker (cellStr (cellAt ws r c))) (fromTo 1 (min 10 (columnCount ws))) of
        None \<Rightarrow> []
      | Some c \<Rightarrow>
          (let nm = markerName (cellStr (cellAt ws r c)) in
           if nm \<noteq> [] then
             [\<lparr>rb_name = nm, rb_sheetName = ws_name ws, rb_startRow = r, rb_endRow = rowCount ws + 1\<rparr>]
           else []))"

text \<open>The second loop: every block but the last ends where the next one starts.\<close>

fun adjustEndRows :: "RawBlock list \<Rightarrow> RawBlock list" where
  "adjustEndRows (b # b' # bs) = b\<lparr>rb_endRow := rb_startRow b'\<rparr> # adjustEndRows (b' # bs)"
| "adjustEndRows bs = bs"

definition findNameBlocks :: "Worksheet \<Rightarrow> RawBlock list" where
  "findNameBlocks ws = adjustEndRows (concat (map (nameBlockOfRow ws) (fromTo 1 (rowCount ws))))"

definition sectionPattern :: re where
  "sectionPattern = Cat [Bol, Alts [Lit ''scenario'', Lit ''case'', Lit ''modell'', Lit ''plan'',
     Lit ''budget'', Lit ''forecast'', Lit ''prognose'', Lit ''alternativ''], WordB]"

definition knownFinancialLabel :: re where
  "knownFinancialLabel = Alts [Lit ''revenue'', Lit ''omsetning'', Lit ''ebitda'', Lit ''nibd'',
     Lit ''capex'', Lit ''aksjer'', Lit ''share'', Lit ''vekst'', Lit ''growth'', Lit ''margin'',
     Lit ''fcf'', Lit ''gjeld'', Lit ''debt'', Cat [Lit ''adjustment'', Opt (Lit ''s'')],
     Lit ''justeringer'', Lit ''pref'', Lit ''mip'', Lit ''tso'', Lit ''warrant'', Lit ''turnover'',
     Lit ''driftsinnt'']"

record SectionScan =
  blocks :: "RawBlock list"
  gapStart :: int
  lastNonEmptyRow :: nat

text \<open>\<^verbatim>\<open>blocks[blocks.length - 1].endRow = e\<close>, guarded by \<^verbatim>\<open>blocks.length > 0\<close>.\<close>

definition closeLast :: "nat \<Rightarrow> RawBlock list \<Rightarrow> RawBlock list" where
  "closeLast e bs = (if bs = [] then bs else butlast bs @ [(last bs)\<lparr>rb_endRow := e\<rparr>])"

definition hasContent :: "Worksheet \<Rightarrow> nat \<Rightarrow> bool" where
  "hasContent ws r = list_ex (\<lambda>c. cellStr (cellAt ws r c) \<noteq> []) (fromTo 1 (min 15 (columnCount ws)))"

definition sectionStep :: "Worksheet \<Rightarrow> nat \<Rightarrow> SectionScan \<Rightarrow> nat \<Rightarrow> SectionScan" where
  "sectionStep ws labelCol st r =
     (let label = cellStr (cellAt ws r labelCol) in
      if \<not> hasContent ws r then
        (if gapStart st < 0 then st\<lparr>gapStart := int r\<rparr> else st)
      else
        (let bs1 = (if 0 < gapStart st \<and> 3 \<le> int r - gapStart st \<and> 0 < lastNonEmptyRow st
                    then closeLast (nat (gapStart st)) (blocks st) else blocks st);
             bs2 = (if label \<noteq> [] \<and> testI sectionPattern label \<and> \<not> testI knownFinancialLabel label
                    then closeLast r bs1 @
                         [\<lparr>rb_name = label, rb_sheetName = ws_name ws, rb_startRow = r,
                           rb_endRow = rowCount ws + 1\<rparr>]
                    else bs1)
         in \<lparr>blocks = bs2, gapStart = - 1, lastNonEmptyRow = r\<rparr>))"

definition findSectionBlocks :: "Worksheet \<Rightarrow> RawBlock list" where
  "findSectionBlocks ws =
     (let labelCol = findLabelColumn ws 1 (rowCount ws) in
      blocks (foldl (sectionStep ws labelCol)
                \<lparr>blocks = [], gapStart = - 1, lastNonEmptyRow = 0\<rparr> (fromTo 1 (rowCount ws))))"

section \<open>Periods and parsed blocks\<close>

text \<open>
  \<^verbatim>\<open>PeriodYear\<close>: the four descriptive fields and the forty numeric ones, which the parser
  writes by key (\<^verbatim>\<open>periods[pi][field] = val\<close>); \<open>None\<close> is \<^verbatim>\<open>null\<close>.
\<close>

record PeriodYear =
  year :: rat
  period_date :: jsstring
  period_label :: jsstring
  period_type :: jsstring
  fieldValue :: "FieldKey \<Rightarrow> number option"

record ParsedModelBlock =
  name :: jsstring
  periods :: "PeriodYear list"
  unmappedRows :: "jsstring list"
  source :: jsstring

text \<open>The numeric keys in the order of \<^verbatim>\<open>Object.keys\<close>, which is the order of creation.\<close>

definition numericKeys :: "FieldKey list" where
  "numericKeys =
     [revenue_total, revenue_managed_services, revenue_professional_services, revenue_other,
      revenue_organic, revenue_ma, revenue_growth, organic_growth, acquired_revenue,
      ebitda_total, ebitda_margin, ebitda_managed_services, ebitda_professional_services,
      ebitda_central_costs, ebitda_organic, ebitda_ma,
      margin_managed_services, margin_professional_services, margin_central_costs,
      capex, capex_pct_revenue, change_nwc, other_cash_flow_items, operating_fcf,
      minority_interest, operating_fcf_excl_minorities, cash_conversion,
      share_count, nibd, option_debt, adjustments, enterprise_value, equity_value,
      preferred_equity, per_share_pre, mip_amount, tso_amount, warrants_amount,
      eqv_post_dilution, per_share_post]"

text \<open>
  \<^verbatim>\<open>createEmptyPeriod\<close> reads the clock (\<^verbatim>\<open>new Date().getFullYear()\<close>); the year it reads is
  the argument \<open>currentYear\<close> of the model.
\<close>

definition createEmptyPeriod :: "int \<Rightarrow> rat \<Rightarrow> PeriodYear" where
  "createEmptyPeriod currentYear y =
     \<lparr>year = y,
      period_date = numToString (Finite y) @ str ''-12-31'',
      period_label = numToString (Finite y),
      period_type = (if y < of_int currentYear then str ''actual''
                     else if y = of_int currentYear then str ''budget'' else str ''forecast''),
      fieldValue = (\<lambda>k. None)\<rparr>"

definition quoted :: "jsstring \<Rightarrow> jsstring" where
  "quoted s = [34] @ s @ [34]"

text \<open>The label of a data row: the label column, else the first of the columns 1,
  \<open>labelCol - 1\<close>, \<open>labelCol + 1\<close> that holds a text of more than one code unit.\<close>

definition rowLabel :: "Worksheet \<Rightarrow> nat \<Rightarrow> nat \<Rightarrow> jsstring" where
  "rowLabel ws labelCol r =
     (let rawLabel = cellStr (cellAt ws r labelCol) in
      if rawLabel \<noteq> [] then rawLabel
      else
        (case find (\<lambda>tryCol. 1 \<le> tryCol \<and> tryCol \<noteq> labelCol \<and>
                       (let alt = cellStr (cellAt ws r tryCol) in alt \<noteq> [] \<and> 1 < length alt))
                [1, labelCol - 1, labelCol + 1] of
           Some tryCol \<Rightarrow> cellStr (cellAt ws r tryCol)
         | None \<Rightarrow> []))"

text \<open>The known non-data rows, tested on the lower-cased label.\<close>

definition isNonDataRow :: "jsstring \<Rightarrow> bool" where
  "isNonDataRow lower \<longleftrightarrow>
     startsWith lower (str ''name:'') \<or> lower = str ''input'' \<or> lower = str ''inndata'' \<or>
     lower = str ''consolidated p&l'' \<or> lower = str ''konsolidert resultat'' \<or>
     lower = str ''comment'' \<or> lower = str ''kommentar'' \<or>
     testI (Cat [Bol, Alts [Lit ''p&l'', Cat [Lit ''resultat'', Opt (Lit ''regnskap'')],
                            Lit ''balanse'', Lit ''balance'', Lit ''summary'', Lit ''sammendrag'',
                            Cat [Lit ''note'', Opt (Lit ''s'')], Cat [Lit ''note'', Opt (Lit ''r'')]],
                 Eol]) lower"

record RowScan =
  scanPeriods :: "PeriodYear list"
  scanUnmapped :: "jsstring list"
  scanCtx :: ParseContext

definition hasData :: "Worksheet \<Rightarrow> YearColumn list \<Rightarrow> nat \<Rightarrow> bool" where
  "hasData ws ycs r = list_ex (\<lambda>yc. cellNum (cellAt ws r (yc_col yc)) \<noteq> None) ycs"

text \<open>\<^verbatim>\<open>periods[pi][field] = val\<close> for every year column \<open>pi\<close> whose cell holds a number.\<close>

definition populate :: "Worksheet \<Rightarrow> nat \<Rightarrow> FieldKey \<Rightarrow> PeriodYear \<times> YearColumn \<Rightarrow> PeriodYear" where
  "populate ws r field = (\<lambda>(p, yc).
     (case cellNum (cellAt ws r (yc_col yc)) of
        None \<Rightarrow> p
      | Some val \<Rightarrow> p\<lparr>fieldValue := (fieldValue p)(field := Some val)\<rparr>))"

text \<open>One turn of the loop over the data rows of a block.\<close>

definition scanRow :: "Worksheet \<Rightarrow> nat \<Rightarrow> YearHeader \<Rightarrow> RowScan \<Rightarrow> nat \<Rightarrow> RowScan" where
  "scanRow ws labelCol yearInfo st r =
     (if r = headerRow yearInfo then st
      else
        (let rawLabel = rowLabel ws labelCol r in
         if rawLabel = [] then st
         else if isNonDataRow (toLowerCase rawLabel) then st
         else
           (case mapLabelToField rawLabel (Some (scanCtx st)) of
              (None, ctx') \<Rightarrow>
                (let st' = st\<lparr>scanCtx := (case ctx' of Some c \<Rightarrow> c | None \<Rightarrow> scanCtx st)\<rparr> in
                 if hasData ws (yearCols yearInfo) r \<and> 1 < length rawLabel
                 then st'\<lparr>scanUnmapped := scanUnmapped st' @ [rawLabel]\<rparr> else st')
            | (Some field, ctx') \<Rightarrow>
                st\<lparr>scanCtx := (case ctx' of Some c \<Rightarrow> c | None \<Rightarrow> scanCtx st),
                   scanPeriods := map (populate ws r field) (zip (scanPeriods st) (yearCols yearInfo))\<rparr>)))"

definition scanRows :: "int \<Rightarrow> Worksheet \<Rightarrow> nat \<Rightarrow> nat \<Rightarrow> nat \<Rightarrow> YearHeader \<Rightarrow> RowScan" where
  "scanRows currentYear ws startRow endRow labelCol yearInfo =
     foldl (scanRow ws labelCol yearInfo)
       \<lparr>scanPeriods = map (\<lambda>yc. createEmptyPeriod currentYear (yc_year yc)) (yearCols yearInfo),
        scanUnmapped = [],
        scanCtx = \<lparr>lastSection = None, lastField = None\<rparr>\<rparr>
       [startRow..<endRow]"

text \<open>The six fields of which one must be set in some period for a block to be kept.\<close>

definition hasKeyData :: "PeriodYear \<Rightarrow> bool" where
  "hasKeyData p \<longleftrightarrow>
     fieldValue p revenue_total \<noteq> None \<or> fieldValue p ebitda_total \<noteq> None \<or>
     fieldValue p enterprise_value \<noteq> None \<or> fieldValue p equity_value \<noteq> None \<or>
     fieldValue p nibd \<noteq> None \<or> fieldValue p share_count \<noteq> None"

definition nonEmptyPeriod :: "PeriodYear \<Rightarrow> bool" where
  "nonEmptyPeriod p = list_ex (\<lambda>k. fieldValue p k \<noteq> None) numericKeys"

definition noDataWarning :: "jsstring \<Rightarrow> Worksheet \<Rightarrow> jsstring" where
  "noDataWarning nm ws =
     str ''Blokk '' @ quoted nm @ str '' (ark '' @ quoted (ws_name ws) @
     str ''): Ingen gjenkjente finansielle data funnet. Hopper over.''"

definition emptyPeriodsWarning :: "jsstring \<Rightarrow> Worksheet \<Rightarrow> jsstring" where
  "emptyPeriodsWarning nm ws =
     str ''Blokk '' @ quoted nm @ str '' (ark '' @ quoted (ws_name ws) @
     str ''): Alle perioder er tomme. Hopper over.''"

definition unmappedWarning :: "jsstring \<Rightarrow> jsstring list \<Rightarrow> jsstring" where
  "unmappedWarning nm rows =
     str ''Blokk '' @ quoted nm @ str '': '' @ natToString (length rows) @
     str '' ukjente rader: '' @ join (str '', '') rows"

definition noYearsWarning :: "jsstring \<Rightarrow> Worksheet \<Rightarrow> nat \<Rightarrow> nat \<Rightarrow> jsstring" where
  "noYearsWarning nm ws startRow effectiveEnd =
     str ''Blokk '' @ quoted nm @ str '' (ark '' @ quoted (ws_name ws) @ str '', rad '' @
     natToString startRow @ str ''-'' @ natToString effectiveEnd @ str ''): Ingen '' @ [229] @
     str ''rstall funnet i kolonneoverskrifter. Hopper over.''"

definition parseBlockWithYears ::
  "int \<Rightarrow> Worksheet \<Rightarrow> nat \<Rightarrow> nat \<Rightarrow> jsstring \<Rightarrow> nat \<Rightarrow> YearHeader \<Rightarrow> jsstring list
    \<Rightarrow> ParsedModelBlock option \<times> jsstring list" where
  "parseBlockWithYears currentYear ws startRow endRow nm labelCol yearInfo warns =
     (let st = scanRows currentYear ws startRow endRow labelCol yearInfo in
      if \<not> list_ex hasKeyData (scanPeriods st) then (None, warns @ [noDataWarning nm ws])
      else
        (let nonEmptyPeriods = filter nonEmptyPeriod (scanPeriods st) in
         if nonEmptyPeriods = [] then (None, warns @ [emptyPeriodsWarning nm ws])
         else
           (Some \<lparr>name = nm, periods = nonEmptyPeriods, unmappedRows = scanUnmapped st,
                  source = ws_name ws @ str '':'' @ natToString startRow @ str ''-'' @
                           natToString (min endRow (rowCount ws))\<rparr>,
            if scanUnmapped st \<noteq> [] then warns @ [unmappedWarning nm (scanUnmapped st)]
            else warns)))"

definition parseBlock ::
  "int \<Rightarrow> Worksheet \<Rightarrow> nat \<Rightarrow> nat \<Rightarrow> jsstring \<Rightarrow> ParsedModelBlock option \<times> jsstring list" where
  "parseBlock currentYear ws startRow endRow fallbackName =
     (let effectiveEnd = min endRow (rowCount ws + 1);
          labelCol = findLabelColumn ws startRow effectiveEnd
      in case findYearHeader ws startRow effectiveEnd 2 of
           Some yearInfo \<Rightarrow>
             parseBlockWithYears currentYear ws startRow effectiveEnd fallbackName labelCol yearInfo []
         | None \<Rightarrow>
             (case findYearHeader ws startRow effectiveEnd 1 of
                None \<Rightarrow> (None, [noYearsWarning fallbackName ws startRow effectiveEnd])
              | Some relaxed \<Rightarrow>
                  parseBlockWithYears currentYear ws startRow effectiveEnd fallbackName labelCol
                    relaxed []))"

section \<open>Input parameters\<close>

text \<open>
  \<^verbatim>\<open>InputParameters\<close> is an object with optional keys. An assignment
  \<^verbatim>\<open>params.k = v1 ?? undefined\<close> creates the key even when the value is \<^verbatim>\<open>undefined\<close>, and
  \<^verbatim>\<open>Object.keys\<close> counts it: \<open>None\<close> is a key that is absent, \<open>Some None\<close> a key that holds
  \<^verbatim>\<open>undefined\<close>.
\<close>

record InputParameters =
  shares_completion :: "number option option"
  shares_year_end :: "number option option"
  tso_warrants_count :: "number option option"
  tso_warrants_price :: "number option option"
  mip_share_pct :: "number option option"
  existing_warrants_count :: "number option option"
  existing_warrants_price :: "number option option"
  acquired_companies_multiple :: "number option option"
  acquired_with_shares_pct :: "number option option"
  ev_multiple :: "number option option"
  pref_growth_rate :: "number option option"

definition noParameters :: InputParameters where
  "noParameters =
     \<lparr>shares_completion = None, shares_year_end = None, tso_warrants_count = None,
      tso_warrants_price = None, mip_share_pct = None, existing_warrants_count = None,
      existing_warrants_price = None, acquired_companies_multiple = None,
      acquired_with_shares_pct = None, ev_multiple = None, pref_growth_rate = None\<rparr>"

text \<open>\<^verbatim>\<open>Object.keys(params).length\<close>.\<close>

definition keyCount :: "InputParameters \<Rightarrow> nat" where
  "keyCount ps =
     length (filter (\<lambda>k. k \<noteq> None)
       [shares_completion ps, shares_year_end ps, tso_warrants_count ps, tso_warrants_price ps,
        mip_share_pct ps, existing_warrants_count ps, existing_warrants_price ps,
        acquired_companies_multiple ps, acquired_with_shares_pct ps, ev_multiple ps,
        pref_growth_rate ps])"

definition isUndefined :: "number option option \<Rightarrow> bool" where
  "isUndefined k \<longleftrightarrow> k = None \<or> k = Some None"

definition paramRow :: "Worksheet \<Rightarrow> nat \<Rightarrow> InputParameters \<Rightarrow> nat \<Rightarrow> InputParameters" where
  "paramRow ws labelCol params r =
     (let label = normalizeLabel (cellStr (cellAt ws r labelCol));
          v1 = cellNum (cellAt ws r (labelCol + 1));
          v2 = cellNum (cellAt ws r (labelCol + 2))
      in
      if includesStr label (str ''number of ord shares completion'') \<or>
         includesStr label (str ''antall ordin'' @ [230] @ str ''re aksjer ved closing'')
      then params\<lparr>shares_completion := Some v1\<rparr>
      else if includesStr label (str ''number of ord shares'') \<or>
              includesStr label (str ''number of  ord shares'') \<or>
              includesStr label (str ''antall ordin'' @ [230] @ str ''re aksjer'')
      then params\<lparr>shares_year_end := Some v1\<rparr>
      else if (includesStr label (str ''tso warrants'') \<or> includesStr label (str ''tso-warranter'')) \<and>
              \<not> includesStr label (str ''share'')
      then (let params1 = params\<lparr>tso_warrants_count := Some v1\<rparr> in
            if v2 \<noteq> None then params1\<lparr>tso_warrants_price := Some v2\<rparr> else params1)
      else if includesStr label (str ''mip share'') \<or> includesStr label (str ''mip andel'') \<or>
              includesStr label (str ''mip-andel'')
      then params\<lparr>mip_share_pct := Some v1\<rparr>
      else if includesStr label (str ''existing warrants share'') \<or>
              includesStr label (str ''eksisterende warranter'')
      then (let params1 = params\<lparr>existing_warrants_count := Some v1\<rparr> in
            if v2 \<noteq> None then params1\<lparr>existing_warrants_price := Some v2\<rparr> else params1)
      else if includesStr label (str ''acquired companies multiple'') \<or>
              includesStr label (str ''oppkj'' @ [248] @ str ''psmultippel'')
      then (if v2 \<noteq> None then params\<lparr>acquired_companies_multiple := Some v2\<rparr>
            else if v1 \<noteq> None then params\<lparr>acquired_companies_multiple := Some v1\<rparr>
            else params)
      else if includesStr label (str ''acquired with shares'') \<or>
              includesStr label (str ''oppkj'' @ [248] @ str ''p med aksjer'')
      then (if v2 \<noteq> None then params\<lparr>acquired_with_shares_pct := Some v2\<rparr>
            else if v1 \<noteq> None then params\<lparr>acquired_with_shares_pct := Some v1\<rparr>
            else params)
      else params)"

definition parseInputParameters :: "Worksheet \<Rightarrow> nat \<Rightarrow> nat \<Rightarrow> InputParameters" where
  "parseInputParameters ws endRow labelCol = foldl (paramRow ws labelCol) noParameters [1..<endRow]"

text \<open>\<open>lo < m \<and> m < hi\<close> on numbers, for a number that is not \<^verbatim>\<open>NaN\<close>.\<close>

fun strictlyBetween :: "rat \<Rightarrow> rat \<Rightarrow> number \<Rightarrow> bool" where
  "strictlyBetween lo hi (Finite q) \<longleftrightarrow> lo < q \<and> q < hi"
| "strictlyBetween lo hi n \<longleftrightarrow> False"

definition enrichRow :: "Worksheet \<Rightarrow> nat \<Rightarrow> InputParameters \<Rightarrow> nat \<Rightarrow> InputParameters" where
  "enrichRow ws labelCol params r =
     (let label = normalizeLabel (cellStr (cellAt ws r labelCol));
          m = cellNum (cellAt ws r (labelCol + 1));
          params1 =
            (if label = str ''ev'' \<and> isUndefined (ev_multiple params) then
               (case m of
                  Some n \<Rightarrow> (if strictlyBetween 0 100 n then params\<lparr>ev_multiple := Some m\<rparr> else params)
                | None \<Rightarrow> params)
             else params)
      in
      if startsWith label (str ''pref'') \<and> isUndefined (pref_growth_rate params1) then
        (case m of
           Some n \<Rightarrow> (if strictlyBetween 0 1 n then params1\<lparr>pref_growth_rate := Some m\<rparr> else params1)
         | None \<Rightarrow> params1)
      else params1)"

definition enrichInputParameters ::
  "Worksheet \<Rightarrow> InputParameters \<Rightarrow> nat \<Rightarrow> nat \<Rightarrow> nat \<Rightarrow> InputParameters" where
  "enrichInputParameters ws params startRow endRow labelCol =
     foldl (enrichRow ws labelCol) params (fromTo startRow (min endRow (rowCount ws)))"

section \<open>Main parse function\<close>

record ExcelParseResult =
  models :: "ParsedModelBlock list"
  inputParameters :: InputParameters
  warnings :: "jsstring list"

datatype error = Error jsstring

text \<open>The three variables that the loop over the sheets updates.\<close>

record ParseState =
  warningsSoFar :: "jsstring list"
  allModels :: "ParsedModelBlock list"
  parametersSoFar :: InputParameters

text \<open>The loop over the blocks of a sheet, shared by the first two strategies.\<close>

definition parseOneBlock :: "int \<Rightarrow> Worksheet \<Rightarrow> ParseState \<Rightarrow> RawBlock \<Rightarrow> ParseState" where
  "parseOneBlock currentYear ws st block =
     (case parseBlock currentYear ws (rb_startRow block) (rb_endRow block) (rb_name block) of
        (Some model, ws') \<Rightarrow>
          st\<lparr>warningsSoFar := warningsSoFar st @ ws', allModels := allModels st @ [model]\<rparr>
      | (None, ws') \<Rightarrow> st\<lparr>warningsSoFar := warningsSoFar st @ ws'\<rparr>)"

definition parseBlocks :: "int \<Rightarrow> Worksheet \<Rightarrow> ParseState \<Rightarrow> RawBlock list \<Rightarrow> ParseState" where
  "parseBlocks currentYear ws st bs = foldl (parseOneBlock currentYear ws) st bs"

text \<open>\<^verbatim>\<open>if (Object.keys(params).length > 0 && Object.keys(inputParameters).length === 0)\<close>.\<close>

definition adoptParameters :: "InputParameters \<Rightarrow> InputParameters \<Rightarrow> InputParameters" where
  "adoptParameters params current = (if 0 < keyCount params \<and> keyCount current = 0 then params else current)"

text \<open>\<^verbatim>\<open>replace(/\.[^.]+$/, "")\<close>: the last dot and what follows it, unless nothing follows it.\<close>

definition removeExtension :: "jsstring \<Rightarrow> jsstring" where
  "removeExtension s =
     (let ext = takeWhile (\<lambda>c. c \<noteq> cu CHR ''.'') (rev s) in
      if length ext < length s \<and> ext \<noteq> [] then take (length s - length ext - 1) s else s)"

definition modelNameOfFile :: "jsstring \<Rightarrow> jsstring" where
  "modelNameOfFile filename =
     trim (map (\<lambda>c. if c = cu CHR ''-'' \<or> c = cu CHR ''_'' then 32 else c) (removeExtension filename))"

text \<open>Strategy 1: the sheet has \<^verbatim>\<open>Name:\<close> blocks (the caller has checked that there is one).\<close>

definition nameStrategy :: "int \<Rightarrow> Worksheet \<Rightarrow> RawBlock list \<Rightarrow> ParseState \<Rightarrow> ParseState" where
  "nameStrategy currentYear ws nameBlocks st =
     (case nameBlocks of
        [] \<Rightarrow> st
      | firstBlock # _ \<Rightarrow>
          (let firstRow = rb_startRow firstBlock;
               labelCol = findLabelColumn ws 1 firstRow;
               params = parseInputParameters ws firstRow labelCol;
               current = adoptParameters params (parametersSoFar st);
               enriched = enrichInputParameters ws current firstRow (rowCount ws) labelCol
           in parseBlocks currentYear ws (st\<lparr>parametersSoFar := enriched\<rparr>) nameBlocks))"

text \<open>Strategy 3: the whole sheet is one model.\<close>

definition sheetStrategy :: "int \<Rightarrow> nat \<Rightarrow> jsstring option \<Rightarrow> Worksheet \<Rightarrow> ParseState \<Rightarrow> ParseState" where
  "sheetStrategy currentYear sheetCount filename ws st =
     (let sheetModelName =
            (if 1 < sheetCount then ws_name ws
             else (case filename of
                     Some f \<Rightarrow> (if f \<noteq> [] then modelNameOfFile f else ws_name ws)
                   | None \<Rightarrow> ws_name ws));
          labelCol = findLabelColumn ws 1 (rowCount ws);
          paramsEndRow = (case findYearHeader ws 1 (rowCount ws) 2 of
                            Some yearInfo \<Rightarrow> headerRow yearInfo
                          | None \<Rightarrow> min 20 (rowCount ws));
          params = parseInputParameters ws paramsEndRow labelCol;
          current = adoptParameters params (parametersSoFar st);
          enriched = enrichInputParameters ws current 1 (rowCount ws) labelCol
      in parseOneBlock currentYear ws (st\<lparr>parametersSoFar := enriched\<rparr>)
           \<lparr>rb_name = sheetModelName, rb_sheetName = ws_name ws, rb_startRow = 1,
            rb_endRow = rowCount ws + 1\<rparr>)"

definition emptySheetWarning :: "Worksheet \<Rightarrow> jsstring" where
  "emptySheetWarning ws = str ''Ark '' @ quoted (ws_name ws) @ str '' er tomt. Hopper over.''"

text \<open>The body of the loop over the sheets.\<close>

definition processSheet :: "int \<Rightarrow> nat \<Rightarrow> jsstring option \<Rightarrow> ParseState \<Rightarrow> Worksheet \<Rightarrow> ParseState" where
  "processSheet currentYear sheetCount filename st ws =
     (if rowCount ws = 0 \<or> columnCount ws = 0 then
        st\<lparr>warningsSoFar := warningsSoFar st @ [emptySheetWarning ws]\<rparr>
      else
        (let nameBlocks = findNameBlocks ws in
         if 0 < length nameBlocks then nameStrategy currentYear ws nameBlocks st
         else
           (let sectionBlocks = findSectionBlocks ws in
            if 1 < length sectionBlocks then parseBlocks currentYear ws st sectionBlocks
            else sheetStrategy currentYear sheetCount filename ws st)))"

text \<open>The diagnostic text of the failure: per sheet its size and its first ten rows.\<close>

definition diagCells :: "Worksheet \<Rightarrow> nat \<Rightarrow> jsstring list" where
  "diagCells ws r =
     List.map_filter
       (\<lambda>c. let v = cellStr (cellAt ws r c) in
            if v \<noteq> [] then Some ([64 + int c] @ str '':'' @ quoted (take 30 v)) else None)
       (fromTo 1 (min 8 (columnCount ws)))"

definition diagRows :: "Worksheet \<Rightarrow> jsstring list" where
  "diagRows ws =
     List.map_filter
       (\<lambda>r. let cs = diagCells ws r in
            if cs \<noteq> [] then Some (str ''  Rad '' @ natToString r @ str '': '' @ join (str '', '') cs)
            else None)
       (fromTo 1 (min 10 (rowCount ws)))"

definition diagLines :: "Worksheet \<Rightarrow> jsstring list" where
  "diagLines ws =
     (str ''Ark '' @ quoted (ws_name ws) @ str '' ('' @ natToString (rowCount ws) @ str '' rader, '' @
      natToString (columnCount ws) @ str '' kolonner):'') # diagRows ws"

definition noDataMessage :: "Workbook \<Rightarrow> jsstring" where
  "noDataMessage wb =
     str ''Kunne ikke finne finansielle data i filen.'' @ [10, 10] @
     str ''Parseren leter etter:'' @ [10] @
     str ''  '' @ [8226] @ str '' Rader med labels som '' @ quoted (str ''Revenue'') @ str '', '' @
       quoted (str ''EBITDA'') @ str '', '' @ quoted (str ''Omsetning'') @ str '', '' @
       quoted (str ''Driftsinntekter'') @ str '' osv.'' @ [10] @
     str ''  '' @ [8226] @ str '' Kolonner med '' @ [229] @ str ''rstall (2020-2040)'' @ [10] @
     str ''  '' @ [8226] @ str '' Evt. '' @ quoted (str ''Name:'') @ str '' rader for '' @ [229] @
       str '' skille modellblokker'' @ [10, 10] @
     str ''Filens struktur:'' @ [10] @ join [10] (concat (map diagLines wb))"

definition sheetsWarning :: "Workbook \<Rightarrow> jsstring list" where
  "sheetsWarning wb =
     (if 1 < length wb
      then [str ''Fant '' @ natToString (length wb) @ str '' ark: '' @ join (str '', '') (map ws_name wb)]
      else [])"

text \<open>The state after the loop over all sheets.\<close>

definition processSheets :: "int \<Rightarrow> Workbook \<Rightarrow> jsstring option \<Rightarrow> ParseState" where
  "processSheets currentYear wb filename =
     foldl (processSheet currentYear (length wb) filename)
       \<lparr>warningsSoFar = sheetsWarning wb, allModels = [], parametersSoFar = noParameters\<rparr> wb"

text \<open>
  \<^verbatim>\<open>parseExcelBuffer\<close>, from the decoded workbook on. \<open>currentYear\<close> is the year the clock of
  the process shows, \<open>filename\<close> the optional second argument.
\<close>

definition parseExcelBuffer :: "int \<Rightarrow> Workbook \<Rightarrow> jsstring option \<Rightarrow> error + ExcelParseResult" where
  "parseExcelBuffer currentYear wb filename =
     (if length wb = 0 then Inl (Error (str ''Filen inneholder ingen ark (sheets).''))
      else
        (let st = processSheets currentYear wb filename in
         if length (allModels st) = 0 then Inl (Error (noDataMessage wb))
         else Inr \<lparr>models = allModels st, inputParameters = parametersSoFar st,
                   warnings = warningsSoFar st\<rparr>))"

section \<open>Example sheets\<close>

text \<open>A sheet with a year header, two known rows, one section title and two unknown rows.\<close>

definition exampleSheet :: Worksheet where
  "exampleSheet = gridSheet (str ''Sheet1'')
     [[textCell ''Label'', numCell 2025, numCell 2026],
      [textCell ''Revenue'', numCell 100, numCell 110],
      [textCell ''Scenario A''],
      [textCell ''EBITDA'', numCell 20, numCell 24],
      [textCell ''X'', numCell 1, numCell 2],
      [textCell ''Foo'', numCell 1, numCell 2]]"

text \<open>A block whose only known row is outside the six key fields.\<close>

definition capexSheet :: Worksheet where
  "capexSheet = gridSheet (str ''Capex'')
     [[textCell ''Label'', numCell 2025, numCell 2026],
      [textCell ''Capex'', numCell 5, numCell 6]]"



text \<open>Two marker rows, and a marker in the eleventh column.\<close>

definition markerSheet :: Worksheet where
  "markerSheet = gridSheet (str ''Models'')
     [[emptyCell, textCell ''Name:  Baseline Plan ''],
      [emptyCell, textCell ''Revenue'', numCell 2025],
      [textCell ''name: Upside''],
      [emptyCell, textCell ''Revenue'', numCell 2025]]"

definition farMarkerSheet :: Worksheet where
  "farMarkerSheet = gridSheet (str ''Models'')
     [[emptyCell, emptyCell, emptyCell, emptyCell, emptyCell, emptyCell, emptyCell, emptyCell,
       emptyCell, emptyCell, textCell ''Name: X'']]"

definition emptyState :: ParseState where
  "emptyState = \<lparr>warningsSoFar = [], allModels = [], parametersSoFar = noParameters\<rparr>"

section \<open>Auxiliary notions\<close>


text \<open>A period, a model and a parse result without the classification of the periods.\<close>

definition untyped :: "PeriodYear \<Rightarrow> PeriodYear" where
  "untyped p = p\<lparr>period_type := []\<rparr>"

definition untypedModel :: "ParsedModelBlock \<Rightarrow> ParsedModelBlock" where
  "untypedModel m = m\<lparr>periods := map untyped (periods m)\<rparr>"



definition untypedState :: "ParseState \<Rightarrow> ParseState" where
  "untypedState st = st\<lparr>allModels := map untypedModel (allModels st)\<rparr>"

text \<open>The year header of the example sheet.\<close>

definition exampleHeader :: YearHeader where
  "exampleHeader =
     \<lparr>headerRow = 1, yearCols = [\<lparr>yc_col = 2, yc_year = 2025\<rparr>, \<lparr>yc_col = 3, yc_year = 2026\<rparr>]\<rparr>"

section \<open>The Label Mapper\<close>

lemma str_nonempty: "str (c # cs) \<noteq> []"
  by (simp add: str_def)

lemma firstMatch_percent_growth:
  "firstMatch LABEL_MAPPINGS (str ''% growth'') = Some revenue_growth"
  by code_simp



lemma sectionOf_revenue_growth: "sectionOf revenue_growth = Some Revenue"
  by code_simp

lemma normalizeLabel_percent_growth: "normalizeLabel (str ''% Growth'') = str ''% growth''"
  by code_simp


lemma ebitda_row:
  "mapLabelToField (str ''EBITDA'') (Some \<lparr>lastSection = None, lastField = None\<rparr>) =
     (Some ebitda_total, Some \<lparr>lastSection = Some Ebitda, lastField = Some ebitda_total\<rparr>)"
  by code_simp


text \<open>
  C1. A label that normalizes to \<^verbatim>\<open>% growth\<close> is matched by the entry
  \<^verbatim>\<open>/^%\s*growth$/\<close> of the table before the context is looked at: it maps to the
  revenue-growth field whatever the last section is, also when that is EBITDA, and it
  moves the context to the revenue section. The branch of \<^verbatim>\<open>mapLabelToField\<close> that returns
  \<^verbatim>\<open>null\<close> in the EBITDA section is reached by \<^verbatim>\<open>% vekst\<close> only.
\<close>

theorem percent_growth_ignores_section:
  assumes "normalizeLabel label = str ''% growth''"
  shows "mapLabelToField label (Some ctx) =
           (Some revenue_growth,
            Some (ctx\<lparr>lastField := Some revenue_growth, lastSection := Some Revenue\<rparr>))"
  using assms
  by (simp add: mapLabelToField_def firstMatch_percent_growth str_nonempty updateContext_def
      sectionOf_revenue_growth)

theorem percent_growth_ignores_section_witness:
  "normalizeLabel (str ''% Growth'') = str ''% growth'' \<and>
   mapLabelToField (str ''EBITDA'') (Some \<lparr>lastSection = None, lastField = None\<rparr>) =
     (Some ebitda_total, Some \<lparr>lastSection = Some Ebitda, lastField = Some ebitda_total\<rparr>) \<and>
   mapLabelToField (str ''% Growth'')
       (Some \<lparr>lastSection = Some Ebitda, lastField = Some ebitda_total\<rparr>) =
     (Some revenue_growth, Some \<lparr>lastSection = Some Revenue, lastField = Some revenue_growth\<rparr>)"
  using percent_growth_ignores_section [OF normalizeLabel_percent_growth,
      of "\<lparr>lastSection = Some Ebitda, lastField = Some ebitda_total\<rparr>"]
    normalizeLabel_percent_growth ebitda_row
  by simp






section \<open>The Value Reader\<close>

lemma cu_values [simp]:
  "cu CHR '','' = 44" "cu CHR ''.'' = 46" "cu CHR ''-'' = 45" "cu CHR ''+'' = 43"
  "cu CHR ''e'' = 101" "cu CHR ''E'' = 69"
  by (simp_all add: cu_def)
















section \<open>The Parse Orchestrator\<close>

text \<open>The models a list of raw blocks yields, in order.\<close>

lemma parseOneBlock_models:
  "allModels (parseOneBlock cy ws st b) =
     allModels st @
     (case fst (parseBlock cy ws (rb_startRow b) (rb_endRow b) (rb_name b)) of
        Some m \<Rightarrow> [m] | None \<Rightarrow> [])"
  by (simp add: parseOneBlock_def split: prod.splits option.splits)

lemma parseBlocks_models:
  "allModels (parseBlocks cy ws st bs) =
     allModels st @
     List.map_filter (\<lambda>b. fst (parseBlock cy ws (rb_startRow b) (rb_endRow b) (rb_name b))) bs"
  unfolding parseBlocks_def
proof (induction bs arbitrary: st)
  case Nil
  then show ?case by (simp add: List.map_filter_simps)
next
  case (Cons b bs)
  show ?case
    by (simp add: Cons.IH parseOneBlock_models List.map_filter_simps split: option.splits)
qed

lemma nameStrategy_models:
  "allModels (nameStrategy cy ws bs st) =
     allModels st @
     List.map_filter (\<lambda>b. fst (parseBlock cy ws (rb_startRow b) (rb_endRow b) (rb_name b))) bs"
  by (cases bs) (simp_all add: nameStrategy_def Let_def parseBlocks_models List.map_filter_simps)

lemma sheetStrategy_models:
  "allModels (sheetStrategy cy n fn ws st) =
     allModels st @
     (case fst (parseBlock cy ws 1 (rowCount ws + 1)
                  (if 1 < n then ws_name ws
                   else (case fn of
                           Some f \<Rightarrow> (if f \<noteq> [] then modelNameOfFile f else ws_name ws)
                         | None \<Rightarrow> ws_name ws))) of
        Some m \<Rightarrow> [m] | None \<Rightarrow> [])"
  by (simp add: sheetStrategy_def Let_def parseOneBlock_models)

lemma processSheet_models:
  "allModels (processSheet cy n fn st ws) =
     allModels st @
     (if rowCount ws = 0 \<or> columnCount ws = 0 then []
      else if findNameBlocks ws \<noteq> [] then
        List.map_filter (\<lambda>b. fst (parseBlock cy ws (rb_startRow b) (rb_endRow b) (rb_name b)))
          (findNameBlocks ws)
      else if 1 < length (findSectionBlocks ws) then
        List.map_filter (\<lambda>b. fst (parseBlock cy ws (rb_startRow b) (rb_endRow b) (rb_name b)))
          (findSectionBlocks ws)
      else
        (case fst (parseBlock cy ws 1 (rowCount ws + 1)
                     (if 1 < n then ws_name ws
                      else (case fn of
                              Some f \<Rightarrow> (if f \<noteq> [] then modelNameOfFile f else ws_name ws)
                            | None \<Rightarrow> ws_name ws))) of
           Some m \<Rightarrow> [m] | None \<Rightarrow> []))"
  by (simp add: processSheet_def Let_def nameStrategy_models parseBlocks_models
      sheetStrategy_models)

lemma parseOneBlock_warnings:
  "warningsSoFar (parseOneBlock cy ws st b) =
     warningsSoFar st @ snd (parseBlock cy ws (rb_startRow b) (rb_endRow b) (rb_name b))"
  by (simp add: parseOneBlock_def split: prod.splits option.splits)

lemma parseBlocks_warnings:
  "warningsSoFar (parseBlocks cy ws st bs) =
     warningsSoFar st @
     concat (map (\<lambda>b. snd (parseBlock cy ws (rb_startRow b) (rb_endRow b) (rb_name b))) bs)"
  unfolding parseBlocks_def
  by (induction bs arbitrary: st) (simp_all add: parseOneBlock_warnings)

lemma nameStrategy_warnings:
  "warningsSoFar (nameStrategy cy ws bs st) =
     warningsSoFar st @
     concat (map (\<lambda>b. snd (parseBlock cy ws (rb_startRow b) (rb_endRow b) (rb_name b))) bs)"
  by (cases bs) (simp_all add: nameStrategy_def Let_def parseBlocks_warnings)

lemma sheetStrategy_warnings:
  "warningsSoFar (sheetStrategy cy n fn ws st) =
     warningsSoFar st @
     snd (parseBlock cy ws 1 (rowCount ws + 1)
            (if 1 < n then ws_name ws
             else (case fn of
                     Some f \<Rightarrow> (if f \<noteq> [] then modelNameOfFile f else ws_name ws)
                   | None \<Rightarrow> ws_name ws)))"
  by (simp add: sheetStrategy_def Let_def parseOneBlock_warnings)

lemma processSheet_models_state:
  "allModels (processSheet cy n fn st ws) =
     allModels st @
     allModels (processSheet cy n fn
        emptyState ws)"
  by (simp add: processSheet_models emptyState_def)

lemma foldl_processSheet_models:
  "allModels (foldl (processSheet cy n fn) st wb) =
     allModels st @
     concat (map (\<lambda>ws. allModels (processSheet cy n fn
        emptyState ws)) wb)"
proof (induction wb arbitrary: st)
  case Nil
  then show ?case by simp
next
  case (Cons ws wb)
  show ?case
    using processSheet_models_state[of cy n fn st ws] by (simp add: Cons.IH)
qed

lemma processSheets_models:
  "allModels (processSheets cy wb fn) =
     concat (map (\<lambda>ws. allModels (processSheet cy (length wb) fn
        emptyState ws)) wb)"
  by (simp add: processSheets_def foldl_processSheet_models)

lemma example_segmentation:
  "findNameBlocks exampleSheet = [] \<and>
   map (\<lambda>b. (rb_name b, rb_startRow b, rb_endRow b)) (findSectionBlocks exampleSheet) =
     [(str ''Scenario A'', 3, 7)]"
  by code_simp

lemma example_models:
  "map (\<lambda>m. (name m, source m, unmappedRows m))
     (allModels (processSheet 2025 1 None emptyState exampleSheet)) =
     [(str ''Sheet1'', str ''Sheet1:1-6'', [str ''Foo''])]"
  by code_simp

lemma example_section_block:
  "map_option name (fst (parseBlock 2025 exampleSheet 3 7 (str ''Scenario A''))) = None"
  by code_simp

text \<open>
  C2 (as stated, refuted). The example sheet has no marker row and exactly one section
  block, \<^verbatim>\<open>Scenario A\<close> from row 3 on. That block is not what is parsed (parsed alone, it would
  yield no model): the sheet's one model is the whole sheet, rows 1 to 6, named after the
  sheet.
\<close>

theorem single_section_block_not_used:
  "findNameBlocks exampleSheet = [] \<and>
   map (\<lambda>b. (rb_name b, rb_startRow b, rb_endRow b)) (findSectionBlocks exampleSheet) =
     [(str ''Scenario A'', 3, 7)] \<and>
   map (\<lambda>m. (name m, source m, unmappedRows m))
     (allModels (processSheet 2025 1 None emptyState exampleSheet)) =
     [(str ''Sheet1'', str ''Sheet1:1-6'', [str ''Foo''])] \<and>
   map_option name (fst (parseBlock 2025 exampleSheet 3 7 (str ''Scenario A''))) = None"
  using example_segmentation example_models example_section_block by simp

text \<open>
  C2 (amended). The strategies are tried in order, and what a sheet adds to the models and to
  the warnings is what parsing the blocks of the chosen strategy gives, block by block: the
  marker rows when there is at least one such block; else the section blocks when there are
  at least two of them; else, also when there is exactly one section block, the whole sheet
  as one block, named after the sheet or, in a workbook of one sheet, after the file. An
  empty sheet has no block and adds one warning.
\<close>

theorem strategy_selection:
  "let chosen =
         (if rowCount ws = 0 \<or> columnCount ws = 0 then []
          else if findNameBlocks ws \<noteq> [] then findNameBlocks ws
          else if 1 < length (findSectionBlocks ws) then findSectionBlocks ws
          else [\<lparr>rb_name = (if 1 < n then ws_name ws
                              else (case fn of
                                      Some f \<Rightarrow> (if f \<noteq> [] then modelNameOfFile f else ws_name ws)
                                    | None \<Rightarrow> ws_name ws)),
                  rb_sheetName = ws_name ws, rb_startRow = 1, rb_endRow = rowCount ws + 1\<rparr>])
   in allModels (processSheet cy n fn st ws) =
        allModels st @
        List.map_filter (\<lambda>b. fst (parseBlock cy ws (rb_startRow b) (rb_endRow b) (rb_name b)))
          chosen \<and>
      warningsSoFar (processSheet cy n fn st ws) =
        warningsSoFar st @
        (if rowCount ws = 0 \<or> columnCount ws = 0 then [emptySheetWarning ws] else []) @
        concat (map (\<lambda>b. snd (parseBlock cy ws (rb_startRow b) (rb_endRow b) (rb_name b)))
          chosen)"
proof -
  have models: "allModels (processSheet cy n fn st ws) =
      allModels st @
      (if rowCount ws = 0 \<or> columnCount ws = 0 then []
       else if findNameBlocks ws \<noteq> [] then
         List.map_filter (\<lambda>b. fst (parseBlock cy ws (rb_startRow b) (rb_endRow b) (rb_name b)))
           (findNameBlocks ws)
       else if 1 < length (findSectionBlocks ws) then
         List.map_filter (\<lambda>b. fst (parseBlock cy ws (rb_startRow b) (rb_endRow b) (rb_name b)))
           (findSectionBlocks ws)
       else
         (case fst (parseBlock cy ws 1 (rowCount ws + 1)
                      (if 1 < n then ws_name ws
                       else (case fn of
                               Some f \<Rightarrow> (if f \<noteq> [] then modelNameOfFile f else ws_name ws)
                             | None \<Rightarrow> ws_name ws))) of
            Some m \<Rightarrow> [m] | None \<Rightarrow> []))"
    by (rule processSheet_models)
  have warns: "warningsSoFar (processSheet cy n fn st ws) =
      warningsSoFar st @
      (if rowCount ws = 0 \<or> columnCount ws = 0 then [emptySheetWarning ws]
       else if findNameBlocks ws \<noteq> [] then
         concat (map (\<lambda>b. snd (parseBlock cy ws (rb_startRow b) (rb_endRow b) (rb_name b)))
           (findNameBlocks ws))
       else if 1 < length (findSectionBlocks ws) then
         concat (map (\<lambda>b. snd (parseBlock cy ws (rb_startRow b) (rb_endRow b) (rb_name b)))
           (findSectionBlocks ws))
       else
         snd (parseBlock cy ws 1 (rowCount ws + 1)
                (if 1 < n then ws_name ws
                 else (case fn of
                         Some f \<Rightarrow> (if f \<noteq> [] then modelNameOfFile f else ws_name ws)
                       | None \<Rightarrow> ws_name ws))))"
    by (simp add: processSheet_def Let_def nameStrategy_warnings parseBlocks_warnings
        sheetStrategy_warnings)
  show ?thesis
    unfolding Let_def models warns
    by (simp split: option.splits)
qed


section \<open>The Block Parser\<close>

lemma hasKeyData_nonEmpty: "hasKeyData p \<Longrightarrow> nonEmptyPeriod p"
  by (auto simp: hasKeyData_def nonEmptyPeriod_def numericKeys_def)

lemma parseBlockWithYears_Some:
  assumes "parseBlockWithYears cy ws s e nm lc yi w = (Some m, w')"
  shows "list_ex hasKeyData (periods m)"
proof -
  let ?st = "scanRows cy ws s e lc yi"
  from assms have k: "list_ex hasKeyData (scanPeriods ?st)"
    and p: "periods m = filter nonEmptyPeriod (scanPeriods ?st)"
    by (auto simp: parseBlockWithYears_def Let_def split: if_splits)
  from k obtain q where "q \<in> set (scanPeriods ?st)" "hasKeyData q"
    by (auto simp: list_ex_iff)
  then show ?thesis
    using hasKeyData_nonEmpty[of q] by (auto simp: p list_ex_iff)
qed

lemma parseBlock_Some:
  assumes "parseBlock cy ws s e nm = (Some m, w)"
  shows "list_ex hasKeyData (periods m)"
  using assms
  by (auto simp: parseBlock_def Let_def split: option.splits dest: parseBlockWithYears_Some)

lemma in_set_map_filter:
  "y \<in> set (List.map_filter f xs) \<longleftrightarrow> (\<exists>x\<in>set xs. f x = Some y)"
  by (induction xs) (auto split: option.splits)

lemma blocks_key_data:
  "list_all (\<lambda>m. list_ex hasKeyData (periods m))
     (List.map_filter (\<lambda>b. fst (parseBlock cy ws (rb_startRow b) (rb_endRow b) (rb_name b))) bs)"
proof -
  have "list_ex hasKeyData (periods m)"
    if "fst (parseBlock cy ws (rb_startRow b) (rb_endRow b) (rb_name b)) = Some m" for b m
    using that parseBlock_Some[of cy ws "rb_startRow b" "rb_endRow b" "rb_name b" m
        "snd (parseBlock cy ws (rb_startRow b) (rb_endRow b) (rb_name b))"]
    by (metis prod.collapse)
  then show ?thesis
    by (auto simp: list_all_iff in_set_map_filter)
qed

lemma processSheet_key_data:
  "list_all (\<lambda>m. list_ex hasKeyData (periods m)) (allModels (processSheet cy n fn emptyState ws))"
proof -
  have one: "list_all (\<lambda>m. list_ex hasKeyData (periods m))
      (case fst (parseBlock cy ws 1 e nm) of Some m \<Rightarrow> [m] | None \<Rightarrow> [])" for e nm
    using parseBlock_Some[of cy ws 1 e nm _ "snd (parseBlock cy ws 1 e nm)"]
    by (auto split: option.splits) (metis prod.collapse)
  show ?thesis
    unfolding processSheet_models
    using blocks_key_data[of cy ws "findNameBlocks ws"]
      blocks_key_data[of cy ws "findSectionBlocks ws"] one
    by (simp add: emptyState_def)
qed

lemma processSheets_key_data:
  "list_all (\<lambda>m. list_ex hasKeyData (periods m)) (allModels (processSheets cy wb fn))"
  using processSheet_key_data[of cy "length wb" fn]
  by (auto simp: processSheets_models list_all_iff)

lemma capex_scan:
  "\<not> list_ex hasKeyData
       (scanPeriods (scanRows 2025 capexSheet 1 3 1
          \<lparr>headerRow = 1,
           yearCols = [\<lparr>yc_col = 2, yc_year = 2025\<rparr>, \<lparr>yc_col = 3, yc_year = 2026\<rparr>]\<rparr>)) \<and>
   map (\<lambda>p. fieldValue p capex)
       (scanPeriods (scanRows 2025 capexSheet 1 3 1
          \<lparr>headerRow = 1,
           yearCols = [\<lparr>yc_col = 2, yc_year = 2025\<rparr>, \<lparr>yc_col = 3, yc_year = 2026\<rparr>]\<rparr>)) =
     [Some (Finite 5), Some (Finite 6)]"
  by code_simp

text \<open>
  C10. Every model of a parse result has a period in which one of the six key fields
  (total revenue, total EBITDA, enterprise value, equity value, NIBD, share count) is set;
  and a block in which no period has a key field set is dropped with the warning that no
  financial data was recognised, whatever else its periods hold (in the witness, capital
  expenditure in both years).
\<close>

theorem emitted_blocks_have_key_data:
  "(case parseExcelBuffer cy wb fn of
      Inl e \<Rightarrow> True
    | Inr res \<Rightarrow> list_all (\<lambda>m. list_ex hasKeyData (periods m)) (models res)) \<and>
   (\<not> list_ex hasKeyData (scanPeriods (scanRows cy ws s e lc yi)) \<longrightarrow>
      parseBlockWithYears cy ws s e nm lc yi w = (None, w @ [noDataWarning nm ws]))"
  using processSheets_key_data[of cy wb fn]
  by (auto simp: parseExcelBuffer_def parseBlockWithYears_def Let_def)

theorem emitted_blocks_have_key_data_witness:
  "\<not> list_ex hasKeyData
       (scanPeriods (scanRows 2025 capexSheet 1 3 1
          \<lparr>headerRow = 1,
           yearCols = [\<lparr>yc_col = 2, yc_year = 2025\<rparr>, \<lparr>yc_col = 3, yc_year = 2026\<rparr>]\<rparr>)) \<and>
   map (\<lambda>p. fieldValue p capex)
       (scanPeriods (scanRows 2025 capexSheet 1 3 1
          \<lparr>headerRow = 1,
           yearCols = [\<lparr>yc_col = 2, yc_year = 2025\<rparr>, \<lparr>yc_col = 3, yc_year = 2026\<rparr>]\<rparr>)) =
     [Some (Finite 5), Some (Finite 6)] \<and>
   parseBlockWithYears 2025 capexSheet 1 3 (str ''Capex'') 1
       \<lparr>headerRow = 1,
        yearCols = [\<lparr>yc_col = 2, yc_year = 2025\<rparr>, \<lparr>yc_col = 3, yc_year = 2026\<rparr>]\<rparr> [] =
     (None, [noDataWarning (str ''Capex'') capexSheet])"
  using emitted_blocks_have_key_data [of 2025 "[]" None capexSheet 1 3 1
      "\<lparr>headerRow = 1,
        yearCols = [\<lparr>yc_col = 2, yc_year = 2025\<rparr>, \<lparr>yc_col = 3, yc_year = 2026\<rparr>]\<rparr>"
      "str ''Capex''" "[]"]
    capex_scan
  by simp

section \<open>The Year Column Finder\<close>











section \<open>Periods of a block\<close>














section \<open>The Block Segmenter\<close>

lemma adjustEndRows_length [simp]: "length (adjustEndRows bs) = length bs"
  by (induction bs rule: adjustEndRows.induct) auto

lemma adjustEndRows_nth:
  "i < length bs \<Longrightarrow>
     rb_name (adjustEndRows bs ! i) = rb_name (bs ! i) \<and>
     rb_startRow (adjustEndRows bs ! i) = rb_startRow (bs ! i) \<and>
     rb_endRow (adjustEndRows bs ! i) =
       (if Suc i < length bs then rb_startRow (bs ! Suc i) else rb_endRow (bs ! i))"
proof (induction bs arbitrary: i rule: adjustEndRows.induct)
  case (1 b b' bs)
  then show ?case by (cases i) auto
qed simp_all

lemma nameBlockOfRow_endRow:
  "b \<in> set (nameBlockOfRow ws r) \<Longrightarrow> rb_endRow b = rowCount ws + 1"
  by (auto simp: nameBlockOfRow_def Let_def split: option.splits if_splits)

lemma trim_dropWhile: "trim (dropWhile isSpace s) = trim s"
  by (simp add: trim_def trimStart_def dropWhile_idem)

lemma markerName_trim: "markerName label = trim (drop 5 label)"
  by (simp add: markerName_def trim_dropWhile)

text \<open>
  C7 (amended). In every sheet, a row whose first cell that matches \<^verbatim>\<open>/^name:\s*/i\<close> among
  the first ten columns (or all columns, if fewer) has a non-empty text after the marker
  opens a block: its name is the text after the five code units of the marker, trimmed, it
  starts at that row, and it ends where the next such block starts, the last one at the
  row after the sheet's last.
\<close>

theorem marker_rows_open_blocks:
  assumes r: "1 \<le> r" "r \<le> rowCount ws"
    and c: "find (\<lambda>c. isNameMarker (cellStr (cellAt ws r c))) (fromTo 1 (min 10 (columnCount ws))) = Some c"
    and nm: "trim (drop 5 (cellStr (cellAt ws r c))) \<noteq> []"
  shows "\<exists>i < length (findNameBlocks ws).
           rb_name (findNameBlocks ws ! i) = trim (drop 5 (cellStr (cellAt ws r c))) \<and>
           rb_startRow (findNameBlocks ws ! i) = r \<and>
           rb_endRow (findNameBlocks ws ! i) =
             (if Suc i < length (findNameBlocks ws) then rb_startRow (findNameBlocks ws ! Suc i)
              else rowCount ws + 1)"
proof -
  define raw where "raw = concat (map (nameBlockOfRow ws) (fromTo 1 (rowCount ws)))"
  let ?b = "\<lparr>rb_name = trim (drop 5 (cellStr (cellAt ws r c))), rb_sheetName = ws_name ws,
             rb_startRow = r, rb_endRow = rowCount ws + 1\<rparr>"
  have "nameBlockOfRow ws r = [?b]"
    using c nm by (simp add: nameBlockOfRow_def Let_def markerName_trim)
  moreover have "r \<in> set (fromTo 1 (rowCount ws))"
    using r by (simp add: fromTo_def del: upt_Suc)
  ultimately have "?b \<in> set raw"
    unfolding raw_def
    by (simp only: set_concat set_map) (metis (no_types, lifting) UN_I imageI list.set_intros(1))
  then obtain i where i: "i < length raw" "raw ! i = ?b"
    using in_set_conv_nth[of ?b raw] by blast
  have f: "findNameBlocks ws = adjustEndRows raw"
    by (simp add: findNameBlocks_def raw_def)
  have here: "rb_name (adjustEndRows raw ! i) = trim (drop 5 (cellStr (cellAt ws r c)))"
    "rb_startRow (adjustEndRows raw ! i) = r"
    "rb_endRow (adjustEndRows raw ! i) =
       (if Suc i < length raw then rb_startRow (raw ! Suc i) else rowCount ws + 1)"
    using adjustEndRows_nth[OF i(1)] i(2) by simp_all
  have nxt: "rb_startRow (adjustEndRows raw ! Suc i) = rb_startRow (raw ! Suc i)"
    if "Suc i < length raw"
    using adjustEndRows_nth[OF that] by simp
  show ?thesis
    unfolding f
    using here nxt i(1) by (intro exI[of _ i]) simp
qed

lemma marker_example:
  "find (\<lambda>c. isNameMarker (cellStr (cellAt markerSheet 1 c))) (fromTo 1 (min 10 (columnCount markerSheet))) = Some 2 \<and>
   rowCount markerSheet = 4 \<and>
   trim (drop 5 (cellStr (cellAt markerSheet 1 2))) = str ''Baseline Plan'' \<and>
   map (\<lambda>b. (rb_name b, rb_startRow b, rb_endRow b)) (findNameBlocks markerSheet) =
     [(str ''Baseline Plan'', 1, 3), (str ''Upside'', 3, 5)]"
  by code_simp

theorem marker_rows_open_blocks_witness:
  "(1::nat) \<le> 1 \<and> 1 \<le> rowCount markerSheet \<and>
   find (\<lambda>c. isNameMarker (cellStr (cellAt markerSheet 1 c)))
     (fromTo 1 (min 10 (columnCount markerSheet))) = Some 2 \<and>
   trim (drop 5 (cellStr (cellAt markerSheet 1 2))) = str ''Baseline Plan'' \<and>
   (\<exists>i < length (findNameBlocks markerSheet).
      rb_name (findNameBlocks markerSheet ! i) = str ''Baseline Plan'' \<and>
      rb_startRow (findNameBlocks markerSheet ! i) = 1 \<and>
      rb_endRow (findNameBlocks markerSheet ! i) =
        (if Suc i < length (findNameBlocks markerSheet)
         then rb_startRow (findNameBlocks markerSheet ! Suc i)
         else rowCount markerSheet + 1))"
proof -
  have r: "(1::nat) \<le> 1" "1 \<le> rowCount markerSheet"
    using marker_example by simp_all
  have c: "find (\<lambda>c. isNameMarker (cellStr (cellAt markerSheet 1 c)))
     (fromTo 1 (min 10 (columnCount markerSheet))) = Some 2"
    using marker_example by simp
  have n: "trim (drop 5 (cellStr (cellAt markerSheet 1 2))) = str ''Baseline Plan''"
    using marker_example by simp
  have n': "trim (drop 5 (cellStr (cellAt markerSheet 1 2))) \<noteq> []"
    unfolding n by (simp add: str_def)
  show ?thesis
    using marker_rows_open_blocks [OF r c n'] r c n by simp
qed

text \<open>
  C7 (as stated, refuted). A marker cell in the eleventh column opens no block: the sheet
  has no marker block and no section block, and the parse of the workbook fails.
\<close>

theorem marker_in_eleventh_column_missed:
  "cellStr (cellAt farMarkerSheet 1 11) = str ''Name: X'' \<and>
   isNameMarker (cellStr (cellAt farMarkerSheet 1 11)) \<and>
   columnCount farMarkerSheet = 11 \<and>
   findNameBlocks farMarkerSheet = [] \<and> findSectionBlocks farMarkerSheet = [] \<and>
   isl (parseExcelBuffer 2025 [farMarkerSheet] None)"
  by code_simp

section \<open>Unmapped rows\<close>

lemma scanRow_unmapped_grows:
  "\<exists>ys. scanUnmapped (scanRow ws lc yi st r) = scanUnmapped st @ ys"
  by (auto simp: scanRow_def Let_def split: prod.splits option.splits)

lemma foldl_scanRow_unmapped_grows:
  "\<exists>ys. scanUnmapped (foldl (scanRow ws lc yi) st rs) = scanUnmapped st @ ys"
proof (induction rs arbitrary: st)
  case Nil
  then show ?case by simp
next
  case (Cons r rs)
  obtain ys where "scanUnmapped (scanRow ws lc yi st r) = scanUnmapped st @ ys"
    using scanRow_unmapped_grows by blast
  moreover obtain zs where
    "scanUnmapped (foldl (scanRow ws lc yi) (scanRow ws lc yi st r) rs) =
       scanUnmapped (scanRow ws lc yi st r) @ zs"
    using Cons.IH by blast
  ultimately show ?case by simp
qed

lemma scanRow_records:
  assumes "r \<noteq> headerRow yi"
    and "\<not> isNonDataRow (toLowerCase (rowLabel ws lc r))"
    and "fst (mapLabelToField (rowLabel ws lc r) (Some (scanCtx st))) = None"
    and "hasData ws (yearCols yi) r"
    and "1 < length (rowLabel ws lc r)"
  shows "scanUnmapped (scanRow ws lc yi st r) = scanUnmapped st @ [rowLabel ws lc r]"
proof -
  obtain c where m: "mapLabelToField (rowLabel ws lc r) (Some (scanCtx st)) = (None, c)"
    using assms(3) by (metis prod.collapse)
  have ne: "rowLabel ws lc r \<noteq> []"
    using assms(5) by auto
  show ?thesis
    using assms(1,2,4,5) ne by (simp add: scanRow_def Let_def m)
qed

lemma join_contains:
  "x \<in> set xs \<Longrightarrow> \<exists>pre post. join sep xs = pre @ x @ post"
proof (induction sep xs rule: join.induct)
  case (1 sep)
  then show ?case by simp
next
  case (2 sep y)
  then have "join sep [y] = [] @ x @ []" by simp
  then show ?case by blast
next
  case (3 sep y z zs)
  show ?case
  proof (cases "x = y")
    case True
    then have "join sep (y # z # zs) = [] @ x @ (sep @ join sep (z # zs))" by simp
    then show ?thesis by blast
  next
    case False
    with 3 obtain pre post where "join sep (z # zs) = pre @ x @ post" by auto
    then have "join sep (y # z # zs) = (y @ sep @ pre) @ x @ post" by simp
    then show ?thesis by blast
  qed
qed

lemma scanRows_records:
  assumes "startRow \<le> r" "r < endRow" "r \<noteq> headerRow yi"
    and "\<not> isNonDataRow (toLowerCase (rowLabel ws lc r))"
    and "fst (mapLabelToField (rowLabel ws lc r)
               (Some (scanCtx (scanRows cy ws startRow r lc yi)))) = None"
    and "hasData ws (yearCols yi) r"
    and "1 < length (rowLabel ws lc r)"
  shows "rowLabel ws lc r \<in> set (scanUnmapped (scanRows cy ws startRow endRow lc yi))"
proof -
  have split: "[startRow..<endRow] = [startRow..<r] @ r # [Suc r..<endRow]"
    using assms(1,2) by (metis le_add_diff_inverse less_imp_le_nat upt_add_eq_append upt_conv_Cons)
  let ?st = "scanRows cy ws startRow r lc yi"
  have here: "scanUnmapped (scanRow ws lc yi ?st r) = scanUnmapped ?st @ [rowLabel ws lc r]"
    using assms(3-7) by (rule scanRow_records)
  obtain zs where
    "scanUnmapped (foldl (scanRow ws lc yi) (scanRow ws lc yi ?st r) [Suc r..<endRow]) =
       scanUnmapped (scanRow ws lc yi ?st r) @ zs"
    using foldl_scanRow_unmapped_grows by blast
  moreover have "scanRows cy ws startRow endRow lc yi =
      foldl (scanRow ws lc yi) (scanRow ws lc yi ?st r) [Suc r..<endRow]"
    by (simp add: scanRows_def split)
  ultimately show ?thesis
    using here by simp
qed

text \<open>
  C8 (amended). In a block that is kept, every row of the block other than the header row
  whose label is longer than one code unit, is not one of the known non-data rows, maps to
  no field in the context the rows before it have left, and has a number in some year
  column, has its label in the list of unmapped rows; and the last warning of the block is
  the one that lists these rows, that label among them.
\<close>

theorem unmapped_rows_recorded:
  assumes "startRow \<le> r" "r < endRow" "r \<noteq> headerRow yi"
    and "\<not> isNonDataRow (toLowerCase (rowLabel ws labelCol r))"
    and "fst (mapLabelToField (rowLabel ws labelCol r)
               (Some (scanCtx (scanRows cy ws startRow r labelCol yi)))) = None"
    and "hasData ws (yearCols yi) r"
    and "1 < length (rowLabel ws labelCol r)"
  shows "case parseBlockWithYears cy ws startRow endRow nm labelCol yi w of
           (None, w') \<Rightarrow> True
         | (Some m, w') \<Rightarrow>
             rowLabel ws labelCol r \<in> set (unmappedRows m) \<and>
             w' = w @ [unmappedWarning nm (unmappedRows m)] \<and>
             (\<exists>pre post. last w' =
                str ''Blokk '' @ quoted nm @ str '': '' @ natToString (length (unmappedRows m)) @
                str '' ukjente rader: '' @ pre @ rowLabel ws labelCol r @ post)"
proof -
  let ?st = "scanRows cy ws startRow endRow labelCol yi"
  have mem: "rowLabel ws labelCol r \<in> set (scanUnmapped ?st)"
    using assms by (rule scanRows_records)
  then have ne: "scanUnmapped ?st \<noteq> []"
    by auto
  obtain pre post where j: "join (str '', '') (scanUnmapped ?st) = pre @ rowLabel ws labelCol r @ post"
    using join_contains[OF mem] by blast
  have "\<exists>pre post. unmappedWarning nm (scanUnmapped ?st) =
          str ''Blokk '' @ quoted nm @ str '': '' @ natToString (length (scanUnmapped ?st)) @
          str '' ukjente rader: '' @ pre @ rowLabel ws labelCol r @ post"
    unfolding unmappedWarning_def j by blast
  then show ?thesis
    using mem ne by (auto simp: parseBlockWithYears_def Let_def)
qed

lemma example_rows:
  "rowLabel exampleSheet 1 5 = str ''X'' \<and>
   fst (mapLabelToField (rowLabel exampleSheet 1 5)
          (Some (scanCtx (scanRows 2025 exampleSheet 1 5 1 exampleHeader)))) = None \<and>
   hasData exampleSheet (yearCols exampleHeader) 5 \<and>
   \<not> isNonDataRow (toLowerCase (rowLabel exampleSheet 1 5)) \<and>
   rowLabel exampleSheet 1 6 = str ''Foo'' \<and>
   fst (mapLabelToField (rowLabel exampleSheet 1 6)
          (Some (scanCtx (scanRows 2025 exampleSheet 1 6 1 exampleHeader)))) = None \<and>
   hasData exampleSheet (yearCols exampleHeader) 6 \<and>
   \<not> isNonDataRow (toLowerCase (rowLabel exampleSheet 1 6)) \<and>
   headerRow exampleHeader = 1 \<and>
   map_option unmappedRows
     (fst (parseBlockWithYears 2025 exampleSheet 1 7 (str ''Sheet1'') 1 exampleHeader [])) =
     Some [str ''Foo''] \<and>
   snd (parseBlockWithYears 2025 exampleSheet 1 7 (str ''Sheet1'') 1 exampleHeader []) =
     [unmappedWarning (str ''Sheet1'') [str ''Foo'']]"
  by code_simp

theorem unmapped_rows_recorded_witness:
  "(1::nat) \<le> 6 \<and> (6::nat) < 7 \<and> 6 \<noteq> headerRow exampleHeader \<and>
   \<not> isNonDataRow (toLowerCase (rowLabel exampleSheet 1 6)) \<and>
   fst (mapLabelToField (rowLabel exampleSheet 1 6)
          (Some (scanCtx (scanRows 2025 exampleSheet 1 6 1 exampleHeader)))) = None \<and>
   hasData exampleSheet (yearCols exampleHeader) 6 \<and>
   1 < length (rowLabel exampleSheet 1 6) \<and>
   rowLabel exampleSheet 1 6 = str ''Foo'' \<and>
   map_option unmappedRows
     (fst (parseBlockWithYears 2025 exampleSheet 1 7 (str ''Sheet1'') 1 exampleHeader [])) =
     Some [str ''Foo''] \<and>
   (case parseBlockWithYears 2025 exampleSheet 1 7 (str ''Sheet1'') 1 exampleHeader [] of
      (None, w') \<Rightarrow> True
    | (Some m, w') \<Rightarrow>
        rowLabel exampleSheet 1 6 \<in> set (unmappedRows m) \<and>
        w' = [] @ [unmappedWarning (str ''Sheet1'') (unmappedRows m)] \<and>
        (\<exists>pre post. last w' =
           str ''Blokk '' @ quoted (str ''Sheet1'') @ str '': '' @
           natToString (length (unmappedRows m)) @
           str '' ukjente rader: '' @ pre @ rowLabel exampleSheet 1 6 @ post))"
proof -
  have hr: "headerRow exampleHeader = 1"
    using example_rows by blast
  have h: "(1::nat) \<le> 6" "(6::nat) < 7" "6 \<noteq> headerRow exampleHeader"
    unfolding hr by simp_all
  have g: "\<not> isNonDataRow (toLowerCase (rowLabel exampleSheet 1 6))"
    "fst (mapLabelToField (rowLabel exampleSheet 1 6)
          (Some (scanCtx (scanRows 2025 exampleSheet 1 6 1 exampleHeader)))) = None"
    "hasData exampleSheet (yearCols exampleHeader) 6"
    using example_rows by blast+
  have l: "rowLabel exampleSheet 1 6 = str ''Foo''"
    using example_rows by blast
  have len: "1 < length (rowLabel exampleSheet 1 6)"
    unfolding l by (simp add: str_def)
  have u: "map_option unmappedRows
     (fst (parseBlockWithYears 2025 exampleSheet 1 7 (str ''Sheet1'') 1 exampleHeader [])) =
     Some [str ''Foo'']"
    using example_rows by blast
  show ?thesis
    using unmapped_rows_recorded [OF h g len, where nm = "str ''Sheet1''" and w = "[]"] h g len l u
    by blast
qed

text \<open>
  C8 (as stated, refuted). Row 5 of the example sheet is labelled \<^verbatim>\<open>X\<close>, maps to no field
  and has numbers in both year columns, and the block is kept; but its list of unmapped
  rows and its warning name the row \<^verbatim>\<open>Foo\<close> only.
\<close>

theorem single_character_label_not_recorded:
  "rowLabel exampleSheet 1 5 = str ''X'' \<and>
   fst (mapLabelToField (rowLabel exampleSheet 1 5)
          (Some (scanCtx (scanRows 2025 exampleSheet 1 5 1 exampleHeader)))) = None \<and>
   hasData exampleSheet (yearCols exampleHeader) 5 \<and>
   \<not> isNonDataRow (toLowerCase (rowLabel exampleSheet 1 5)) \<and>
   map_option unmappedRows
     (fst (parseBlockWithYears 2025 exampleSheet 1 7 (str ''Sheet1'') 1 exampleHeader [])) =
     Some [str ''Foo''] \<and>
   snd (parseBlockWithYears 2025 exampleSheet 1 7 (str ''Sheet1'') 1 exampleHeader []) =
     [unmappedWarning (str ''Sheet1'') [str ''Foo'']] \<and>
   str ''X'' \<notin> set [str ''Foo'']"
proof -
  have "str ''X'' \<notin> set [str ''Foo'']"
    by (simp add: str_def)
  with example_rows show ?thesis
    by blast
qed

section \<open>Dependence on the clock\<close>








lemma untyped_tests [simp]:
  "hasKeyData (untyped p) = hasKeyData p" "nonEmptyPeriod (untyped p) = nonEmptyPeriod p"
  by (simp_all add: hasKeyData_def nonEmptyPeriod_def untyped_def)






lemma untypedState_simps [simp]:
  "warningsSoFar (untypedState st) = warningsSoFar st"
  "parametersSoFar (untypedState st) = parametersSoFar st"
  "allModels (untypedState st) = map untypedModel (allModels st)"
  by (simp_all add: untypedState_def)













end
